theory Spec2Isabelle
  imports Complex_Main
begin

section \<open>The dynamic navigation widget of \<^verbatim>\<open>src/scripts/navigation.ts\<close>\<close>

text \<open>
  The class \<^verbatim>\<open>DynamicNavigation\<close> keeps references to a handful of page elements,
  writes inline styles on them and schedules delayed callbacks with \<^verbatim>\<open>setTimeout\<close>.
  The embedding below makes all of that explicit:
  \<^item> the page is a store from element identities to element records (inline style,
    text, measured geometry); a reference to an element is its identity, so two
    arrays that hold the same element alias the same store cell;
  \<^item> \<^verbatim>\<open>document.getElementById\<close> is a lookup that may return \<^verbatim>\<open>null\<close>;
  \<^item> a thrown \<^verbatim>\<open>TypeError\<close> is the left summand of a result;
  \<^item> \<^verbatim>\<open>setTimeout\<close> appends to a queue of pending timers; each closure passed to
    it is a constructor of the datatype \<open>callback\<close> that carries the captured
    variables, and the event loop fires the pending timer that is due first;
  \<^item> finite JavaScript numbers are real numbers (rounding is not modelled); the
    non-finite results of a division by zero are kept apart in \<open>jsnum\<close>.

  Left out: \<^verbatim>\<open>spareRoomAndDisplay\<close>, whose body does not parse (the call of
  \<^verbatim>\<open>forEach\<close> is never closed) and which nothing calls; \<^verbatim>\<open>expandRowFromIndex\<close>,
  which nothing calls; the coalescing of scroll events into one call per animation
  frame; and changes of the page by anything but this object: the elements that exist
  at construction are the elements that exist afterwards.
\<close>

subsection \<open>Numbers\<close>

datatype jsnum = Fin real | PosInf | NegInf | NaN

text \<open>
  \<^verbatim>\<open>a / b\<close> for finite operands: the exact quotient, where JavaScript gives the
  nearest double (\<open>100 / 30\<close> is \<open>10 / 3\<close> here and \<^verbatim>\<open>3.3333333333333335\<close>
  there). The two agree whenever the quotient is a double, as \<open>100 / 40 = 2.5\<close> is.
\<close>

definition js_div :: "real \<Rightarrow> real \<Rightarrow> jsnum" where
  "js_div a b =
     (if b \<noteq> 0 then Fin (a / b)
      else if 0 < a then PosInf
      else if a < 0 then NegInf
      else NaN)"

text \<open>\<^verbatim>\<open>a * d\<close> for a finite right operand: the exact product, likewise.\<close>

fun js_mul :: "jsnum \<Rightarrow> real \<Rightarrow> jsnum" where
  "js_mul (Fin a) d = Fin (a * d)"
| "js_mul PosInf d = (if 0 < d then PosInf else if d < 0 then NegInf else NaN)"
| "js_mul NegInf d = (if 0 < d then NegInf else if d < 0 then PosInf else NaN)"
| "js_mul NaN d = NaN"

text \<open>
  The delay that \<^verbatim>\<open>setTimeout\<close> makes of its second argument: a value that is not
  finite counts as zero.
\<close>

fun delay_of :: "jsnum \<Rightarrow> real" where
  "delay_of (Fin d) = d"
| "delay_of PosInf = 0"
| "delay_of NegInf = 0"
| "delay_of NaN = 0"

subsection \<open>Elements and inline style values\<close>

text \<open>
  The identities of the elements the script looks up: \<^verbatim>\<open>content-scroll\<close>,
  \<^verbatim>\<open>nav-row-${i}\<close>, \<^verbatim>\<open>nav-toggle\<close>, \<^verbatim>\<open>dynamic-nav-container\<close>,
  \<^verbatim>\<open>title-row-1\<close>, \<^verbatim>\<open>title-row-2\<close>, \<^verbatim>\<open>toggle-button\<close>, and the first
  \<^verbatim>\<open>svg\<close> and \<^verbatim>\<open>span\<close> inside the toggle (what \<^verbatim>\<open>querySelector\<close> finds).
\<close>

datatype elem_id =
    ContentScroll
  | NavRow nat
  | NavToggle
  | DynamicNavContainer
  | TitleRow1
  | TitleRow2
  | ToggleButton
  | NavToggleSvg
  | NavToggleSpan

text \<open>
  A style value is a string. The literal strings of the source are kept as they are;
  a template literal with an interpolated number is kept as the template and the
  number, because the text of a number is not modelled:
  \<open>TranslateY_px x\<close> is \<^verbatim>\<open>`translateY(${x}px)`\<close>,
  \<open>TranslateY_minus_px x\<close> is \<^verbatim>\<open>`translateY(-${x}px)`\<close>,
  \<open>Px x\<close> is \<^verbatim>\<open>`${x}px`\<close> and
  \<open>Transform_ms t\<close> is \<^verbatim>\<open>`transform ${t}ms ease-out`\<close>.
\<close>

datatype css =
    Lit string
  | TranslateY_px real
  | TranslateY_minus_px real
  | Px real
  | Transform_ms jsnum

record element =
  style_position :: css
  style_zIndex :: css
  style_transition :: css
  style_transform :: css
  style_opacity :: css
  style_maxHeight :: css
  style_top :: css
  style_right :: css
  innerHTML :: string
  textContent :: string
  offsetHeight :: nat
  rect_top :: real
  rect_bottom :: real

text \<open>
  The vertical translation in pixels that a transform value written by the scroll
  handler stands for.
\<close>

fun translation_px :: "css \<Rightarrow> real option" where
  "translation_px (TranslateY_px x) = Some x"
| "translation_px (Lit s) = (if s = ''translateY(0)'' then Some 0 else None)"
| "translation_px v = None"

subsection \<open>Timers\<close>

text \<open>
  One constructor for each closure handed to \<^verbatim>\<open>setTimeout\<close>, with the variables it
  captures:
  \<^item> \<open>ExpandRowStep i distance scheduleTime\<close>: the closure of \<^verbatim>\<open>expandRow\<close>;
  \<^item> \<open>NavRowAppear row\<close> and \<open>TitleRowsReset\<close>: the closures of \<^verbatim>\<open>expandNavRows\<close>;
  \<^item> \<open>CollapseStep row rowHeight cell\<close>: the per-row closure of
    \<^verbatim>\<open>collapseNavRowsWithContentMovement\<close>; \<open>cell\<close> is the address of the
    variable \<^verbatim>\<open>totalMovedDistance\<close> that the closures of one call share;
  \<^item> \<open>HideContainer\<close> and \<open>ResetPositions\<close>: the outer and the inner closure at the
    end of \<^verbatim>\<open>collapseNavRowsWithContentMovement\<close>.
\<close>

datatype callback =
    ExpandRowStep int real jsnum
  | NavRowAppear elem_id
  | TitleRowsReset
  | CollapseStep elem_id nat nat
  | HideContainer
  | ResetPositions

datatype error = TypeError

subsection \<open>The state\<close>

record state =
  present :: "elem_id set"
  elems :: "elem_id \<Rightarrow> element"
  innerWidth :: int
  now :: real
  timers :: "(real \<times> callback) list"
  cells :: "nat \<Rightarrow> nat"
  next_cell :: nat
  clickListener :: bool
  scrollListener :: bool
  resizeListener :: bool
  contentScroll :: "elem_id option"
  navRow1 :: "elem_id option"
  navToggle :: "elem_id option"
  dynamicNavContainer :: "elem_id option"
  titleRow1 :: "elem_id option"
  titleRow2 :: "elem_id option"
  displayedRowRegistry :: "elem_id option list"
  transitionPace :: jsnum
  lastScrollTop :: real
  isNavExpanded :: bool
  navRows :: "elem_id list"
  titleRows :: "elem_id list"
  regionWhichTheTextIsAt :: int

text \<open>
  What the constructor finds when the page has loaded: the elements that exist, their
  records, and the width of the window.
\<close>

record page =
  page_present :: "elem_id set"
  page_elems :: "elem_id \<Rightarrow> element"
  page_innerWidth :: int

definition MAX_NAV_ROWS :: int where
  "MAX_NAV_ROWS = 5"

definition ANIMATION_DURATION :: real where
  "ANIMATION_DURATION = 500"

subsection \<open>Browser primitives\<close>

definition getElementById :: "elem_id set \<Rightarrow> elem_id \<Rightarrow> elem_id option" where
  "getElementById doc i = (if i \<in> doc then Some i else None)"

definition upd_elem :: "elem_id \<Rightarrow> (element \<Rightarrow> element) \<Rightarrow> state \<Rightarrow> state" where
  "upd_elem r f st = st\<lparr>elems := (elems st)(r := f (elems st r))\<rparr>"

text \<open>A negative delay counts as zero.\<close>

definition setTimeout :: "callback \<Rightarrow> real \<Rightarrow> state \<Rightarrow> state" where
  "setTimeout cb delay st = st\<lparr>timers := timers st @ [(now st + max 0 delay, cb)]\<rparr>"

text \<open>\<^verbatim>\<open>xs[i]\<close> on an array of element references: \<^verbatim>\<open>undefined\<close> out of range.\<close>

definition js_at :: "elem_id option list \<Rightarrow> int \<Rightarrow> elem_id option" where
  "js_at xs i = (if 0 \<le> i \<and> i < int (length xs) then xs ! nat i else None)"

fun indexOf :: "'a list \<Rightarrow> 'a \<Rightarrow> int" where
  "indexOf [] x = - 1"
| "indexOf (y # ys) x =
     (if y = x then 0
      else (let k = indexOf ys x in if k < 0 then - 1 else k + 1))"

subsection \<open>Initialisation\<close>

definition nav_row_initial_style :: "element \<Rightarrow> element" where
  "nav_row_initial_style e =
     e\<lparr>style_position := Lit ''relative'',
       style_zIndex := Lit ''10'',
       style_transition := Lit ''transform 0.3s ease-out, opacity 0.3s ease-out'',
       style_transform := Lit ''translateY(0)'',
       style_opacity := Lit ''1''\<rparr>"

definition title_row_initial_style :: "element \<Rightarrow> element" where
  "title_row_initial_style e =
     e\<lparr>style_position := Lit ''relative'',
       style_zIndex := Lit ''10'',
       style_transition := Lit ''transform 0.3s ease-out'',
       style_transform := Lit ''translateY(0)''\<rparr>"

text \<open>The body of the loop \<^verbatim>\<open>for (let i = 1; i <= 2; i++)\<close>.\<close>

definition init_nav_row :: "nat \<Rightarrow> state \<Rightarrow> state" where
  "init_nav_row i st =
     (case getElementById (present st) (NavRow i) of
        None \<Rightarrow> st
      | Some navRow \<Rightarrow>
          upd_elem navRow nav_row_initial_style (st\<lparr>navRows := navRows st @ [navRow]\<rparr>))"

definition init_title_row :: "elem_id option \<Rightarrow> state \<Rightarrow> state" where
  "init_title_row ref st =
     (case ref of
        None \<Rightarrow> st
      | Some titleRow \<Rightarrow>
          (upd_elem titleRow title_row_initial_style
             (st\<lparr>titleRows := titleRows st @ [titleRow]\<rparr>))
          \<lparr>displayedRowRegistry := displayedRowRegistry st @ [Some titleRow]\<rparr>)"

text \<open>
  \<^verbatim>\<open>this.navRows[0]\<close> is \<^verbatim>\<open>undefined\<close> when no nav row was found; it is pushed
  all the same.
\<close>

definition initializeNavRows :: "state \<Rightarrow> state" where
  "initializeNavRows st =
     (let st0 = st\<lparr>navRows := [], titleRows := [], displayedRowRegistry := []\<rparr>;
          st1 = fold init_nav_row [1, 2] st0;
          st2 = st1\<lparr>displayedRowRegistry :=
                  displayedRowRegistry st1 @ [js_at (map Some (navRows st1)) 0]\<rparr>;
          st3 = init_title_row (titleRow1 st2) st2
      in init_title_row (titleRow2 st3) st3)"

text \<open>
  The listeners are recorded as registered or not; the handlers themselves are
  \<open>toggleNavExpansion\<close>, \<open>on_scroll\<close> and \<open>updateButtonPosition\<close> below.
\<close>

definition setupEventListeners :: "state \<Rightarrow> state" where
  "setupEventListeners st =
     (let st1 = (if navToggle st \<noteq> None then st\<lparr>clickListener := True\<rparr> else st);
          st2 = (if contentScroll st1 \<noteq> None then st1\<lparr>scrollListener := True\<rparr> else st1)
      in st2\<lparr>resizeListener := True\<rparr>)"

definition collapse_icon :: string where
  \<open>collapse_icon = ''<path stroke-linecap="round" stroke-linejoin="round" stroke-width="2" d="M5 15l7-7 7 7"></path>''\<close>

definition expand_icon :: string where
  \<open>expand_icon = ''<path stroke-linecap="round" stroke-linejoin="round" stroke-width="2" d="M19 9l-7 7-7-7"></path>''\<close>

definition updateToggleButton :: "state \<Rightarrow> state" where
  "updateToggleButton st =
     (case navToggle st of
        None \<Rightarrow> st
      | Some toggle \<Rightarrow>
          (case (getElementById (present st) NavToggleSvg,
                 getElementById (present st) NavToggleSpan) of
             (Some icon, Some text) \<Rightarrow>
               (if isNavExpanded st then
                  upd_elem text (\<lambda>e. e\<lparr>textContent := ''Less''\<rparr>)
                    (upd_elem icon (\<lambda>e. e\<lparr>innerHTML := collapse_icon\<rparr>) st)
                else
                  upd_elem text (\<lambda>e. e\<lparr>textContent := ''More''\<rparr>)
                    (upd_elem icon (\<lambda>e. e\<lparr>innerHTML := expand_icon\<rparr>) st))
           | _ \<Rightarrow> st))"

definition updateButtonPosition :: "state \<Rightarrow> state" where
  "updateButtonPosition st =
     (case getElementById (present st) ToggleButton of
        None \<Rightarrow> st
      | Some button \<Rightarrow>
          (let isWideScreen = (innerWidth st \<ge> 768) in
           if isWideScreen then
             upd_elem button
               (\<lambda>e. e\<lparr>style_position := Lit ''absolute'',
                      style_top := Lit ''20px'',
                      style_right := Lit ''calc(30% + 20px)''\<rparr>) st
           else
             upd_elem button
               (\<lambda>e. e\<lparr>style_position := Lit ''fixed'',
                      style_top := Lit ''20px'',
                      style_right := Lit ''20px''\<rparr>) st))"

definition init :: "state \<Rightarrow> state" where
  "init st = updateButtonPosition (updateToggleButton (setupEventListeners (initializeNavRows st)))"

text \<open>
  The field initialisers and the six lookups of the constructor give the fields of
  \<open>lookups\<close>; the pace is not assigned yet. The constructor then reads
  \<^verbatim>\<open>this.navRow1!.offsetHeight\<close>, which is a property of \<^verbatim>\<open>null\<close> when
  \<^verbatim>\<open>nav-row-1\<close> is not on the page: the non-null assertion is erased by the
  compiler and the read throws.
\<close>

definition lookups :: "page \<Rightarrow> state" where
  "lookups pg =
     (let doc = page_present pg in
      \<lparr>present = doc,
       elems = page_elems pg,
       innerWidth = page_innerWidth pg,
       now = 0,
       timers = [],
       cells = (\<lambda>_. 0),
       next_cell = 0,
       clickListener = False,
       scrollListener = False,
       resizeListener = False,
       contentScroll = getElementById doc ContentScroll,
       navRow1 = getElementById doc (NavRow 1),
       navToggle = getElementById doc NavToggle,
       dynamicNavContainer = getElementById doc DynamicNavContainer,
       titleRow1 = getElementById doc TitleRow1,
       titleRow2 = getElementById doc TitleRow2,
       displayedRowRegistry = [],
       transitionPace = NaN,
       lastScrollTop = 0,
       isNavExpanded = False,
       navRows = [],
       titleRows = [],
       regionWhichTheTextIsAt = 1\<rparr>)"

definition constructor :: "page \<Rightarrow> error + state" where
  "constructor pg =
     (let this = lookups pg
      in case navRow1 this of
           None \<Rightarrow> Inl TypeError
         | Some r \<Rightarrow>
             Inr (init (this\<lparr>transitionPace :=
                                js_div 100 (real (offsetHeight (elems this r)))\<rparr>)))"

subsection \<open>Folded rows and their expansion\<close>

text \<open>
  \<^verbatim>\<open>isRowFolded\<close>. A row that is not in the registry has index \<open>-1\<close>, its
  predecessor is \<^verbatim>\<open>undefined\<close>, and measuring it throws.
\<close>

definition isRowFolded :: "elem_id \<Rightarrow> state \<Rightarrow> error + bool" where
  "isRowFolded row st =
     (if Some row = js_at (displayedRowRegistry st) 0 then Inr False
      else
        (let rowTop = rect_top (elems st row) in
         case js_at (displayedRowRegistry st)
                (indexOf (displayedRowRegistry st) (Some row) - 1) of
           None \<Rightarrow> Inl TypeError
         | Some previousRow \<Rightarrow>
             (let previousRowBottom = rect_bottom (elems st previousRow)
              in Inr (rowTop < previousRowBottom))))"

text \<open>
  \<^verbatim>\<open>expandRow\<close> returns the schedule time together with the state in which the
  timers of the loop \<^verbatim>\<open>for (let i = index; i < length; i++)\<close> are pending.
\<close>

definition expandRow :: "elem_id \<Rightarrow> jsnum \<Rightarrow> state \<Rightarrow> error + (jsnum \<times> state)" where
  "expandRow row baseTime st =
     (case isRowFolded row st of
        Inl e \<Rightarrow> Inl e
      | Inr False \<Rightarrow> Inr (Fin 0, st)
      | Inr True \<Rightarrow>
          (let index = indexOf (displayedRowRegistry st) (Some row) in
           case js_at (displayedRowRegistry st) (index - 1) of
             None \<Rightarrow> Inl TypeError
           | Some previousRow \<Rightarrow>
               (let distance = rect_top (elems st row) - rect_bottom (elems st previousRow);
                    scheduleTime = js_mul (transitionPace st) distance
                in Inr (scheduleTime,
                        fold (\<lambda>i. setTimeout (ExpandRowStep i distance scheduleTime)
                                     (delay_of baseTime))
                          [index ..  int (length (displayedRowRegistry st)) - 1] st))))"

subsection \<open>Expanding and collapsing the nav rows\<close>

definition expandNavRows :: "state \<Rightarrow> state" where
  "expandNavRows st =
     (case dynamicNavContainer st of
        None \<Rightarrow> st
      | Some container \<Rightarrow>
          (let totalHeight = fold (\<lambda>row total. total + offsetHeight (elems st row)) (navRows st) 0;
               st1 = upd_elem container (\<lambda>e. e\<lparr>style_maxHeight := Px (real totalHeight)\<rparr>) st;
               st2 = fold (\<lambda>(index, row). setTimeout (NavRowAppear row) (real index * 100))
                       (enumerate 0 (navRows st1)) st1
           in setTimeout TitleRowsReset (real (length (navRows st2)) * 100 + 100) st2))"

text \<open>
  \<^verbatim>\<open>let totalMovedDistance = 0\<close> allocates a fresh cell; the closures of this call
  hold its address.
\<close>

definition collapseNavRowsWithContentMovement :: "state \<Rightarrow> state" where
  "collapseNavRowsWithContentMovement st =
     (case dynamicNavContainer st of
        None \<Rightarrow> st
      | Some container \<Rightarrow>
          (let navRowHeights = map (\<lambda>row. offsetHeight (elems st row)) (navRows st);
               cell = next_cell st;
               st1 = st\<lparr>cells := (cells st)(cell := 0), next_cell := Suc cell\<rparr>;
               st2 = fold (\<lambda>(index, row).
                             (let rowHeight = navRowHeights ! index;
                                  delay = (real (length (navRows st1)) - 1 - real index) * 100
                              in setTimeout (CollapseStep row rowHeight cell) delay))
                       (enumerate 0 (navRows st1)) st1
           in setTimeout HideContainer
                (real (length (navRows st2)) * 100 + ANIMATION_DURATION) st2))"

definition toggleNavExpansion :: "state \<Rightarrow> state" where
  "toggleNavExpansion st =
     (let st1 = st\<lparr>isNavExpanded := \<not> isNavExpanded st\<rparr>;
          st2 = (if isNavExpanded st1 then expandNavRows st1
                 else collapseNavRowsWithContentMovement st1)
      in updateToggleButton st2)"

subsection \<open>The callbacks\<close>

definition reset_nav_row :: "element \<Rightarrow> element" where
  "reset_nav_row e = e\<lparr>style_transform := Lit ''translateY(0)'', style_opacity := Lit ''1''\<rparr>"

definition reset_transform :: "element \<Rightarrow> element" where
  "reset_transform e = e\<lparr>style_transform := Lit ''translateY(0)''\<rparr>"

text \<open>
  An assignment to a property of \<^verbatim>\<open>style\<close> whose text is not a value of that property
  is dropped, and the property keeps what it had. Of the texts that the class writes only
  those of \<^verbatim>\<open>expandRow\<close> can be such: \<^verbatim>\<open>`translateY(-${distance}px)`\<close> reads
  \<^verbatim>\<open>translateY(--20px)\<close> when the distance is negative, which is not a length, and
  \<^verbatim>\<open>`transform ${scheduleTime}ms ease-out`\<close> is not a transition when the time is
  negative or not finite.
\<close>

definition assign_transform_minus_px :: "real \<Rightarrow> element \<Rightarrow> element" where
  "assign_transform_minus_px distance e =
     (if 0 \<le> distance then e\<lparr>style_transform := TranslateY_minus_px distance\<rparr> else e)"

fun assign_transition_ms :: "jsnum \<Rightarrow> element \<Rightarrow> element" where
  "assign_transition_ms (Fin t) e =
     (if 0 \<le> t then e\<lparr>style_transition := Transform_ms (Fin t)\<rparr> else e)"
| "assign_transition_ms PosInf e = e"
| "assign_transition_ms NegInf e = e"
| "assign_transition_ms NaN e = e"

text \<open>
  What each closure does when its timer fires. A callback that throws (a row of the
  registry that is \<^verbatim>\<open>undefined\<close>, a container that is \<^verbatim>\<open>null\<close>) throws at
  its first statement and leaves the state as it was.
\<close>

fun run_callback :: "callback \<Rightarrow> state \<Rightarrow> state" where
  "run_callback (ExpandRowStep i distance scheduleTime) st =
     (case js_at (displayedRowRegistry st) i of
        None \<Rightarrow> st
      | Some row \<Rightarrow>
          upd_elem row
            (\<lambda>e. assign_transition_ms scheduleTime (assign_transform_minus_px distance e)) st)"
| "run_callback (NavRowAppear row) st = upd_elem row reset_nav_row st"
| "run_callback TitleRowsReset st = fold (\<lambda>row. upd_elem row reset_transform) (titleRows st) st"
| "run_callback (CollapseStep row rowHeight cell) st =
     (let st1 = upd_elem row
                  (\<lambda>e. e\<lparr>style_transform := Lit ''translateY(-100%)'',
                         style_opacity := Lit ''0''\<rparr>) st;
          totalMovedDistance = cells st1 cell + rowHeight;
          st2 = st1\<lparr>cells := (cells st1)(cell := totalMovedDistance)\<rparr>;
          st3 = fold (\<lambda>titleRow. upd_elem titleRow
                        (\<lambda>e. e\<lparr>style_transform := TranslateY_minus_px (real totalMovedDistance)\<rparr>))
                  (titleRows st2) st2
      in case contentScroll st3 of
           None \<Rightarrow> st3
         | Some content \<Rightarrow>
             upd_elem content
               (\<lambda>e. e\<lparr>style_transform := TranslateY_minus_px (real totalMovedDistance)\<rparr>) st3)"
| "run_callback HideContainer st =
     (case dynamicNavContainer st of
        None \<Rightarrow> st
      | Some container \<Rightarrow>
          setTimeout ResetPositions 150
            (upd_elem container (\<lambda>e. e\<lparr>style_maxHeight := Lit ''0''\<rparr>) st))"
| "run_callback ResetPositions st =
     (let st1 = fold (\<lambda>row. upd_elem row reset_nav_row) (navRows st) st;
          st2 = fold (\<lambda>row. upd_elem row reset_transform) (titleRows st1) st1
      in case contentScroll st2 of
           None \<Rightarrow> st2
         | Some content \<Rightarrow> upd_elem content reset_transform st2)"

subsection \<open>Scrolling and resizing\<close>

record header_info =
  element :: elem_id
  height :: nat
  startPosition :: nat
  endPosition :: nat
  originalPosition :: nat

text \<open>
  The \<^verbatim>\<open>map\<close> that builds \<^verbatim>\<open>headerInfo\<close>; its closure adds each height to
  \<^verbatim>\<open>cumulativeHeight\<close>, which is the accumulator here.
\<close>

fun headerInfo :: "(elem_id \<Rightarrow> element) \<Rightarrow> elem_id list \<Rightarrow> nat \<Rightarrow> header_info list" where
  "headerInfo els [] cumulativeHeight = []"
| "headerInfo els (row # rows) cumulativeHeight =
     (let height = offsetHeight (els row) in
      \<lparr>element = row,
       height = height,
       startPosition = cumulativeHeight,
       endPosition = cumulativeHeight + height,
       originalPosition = cumulativeHeight\<rparr>
      # headerInfo els rows (cumulativeHeight + height))"

text \<open>
  The body of \<^verbatim>\<open>headerInfo.forEach\<close>. Its guard \<^verbatim>\<open>if (!header.element) return\<close>
  never returns, since a reference to an element is truthy.
\<close>

definition move_header :: "real \<Rightarrow> header_info \<Rightarrow> state \<Rightarrow> state" where
  "move_header totalScroll header st =
     (if totalScroll \<ge> real (startPosition header) then
        (let scrollBeyondStart = totalScroll - real (startPosition header);
             moveDistance = (if scrollBeyondStart \<ge> real (height header)
                             then - real (height header)
                             else - scrollBeyondStart)
         in upd_elem (element header) (\<lambda>e. e\<lparr>style_transform := TranslateY_px moveDistance\<rparr>) st)
      else
        upd_elem (element header) (\<lambda>e. e\<lparr>style_transform := Lit ''translateY(0)''\<rparr>) st)"

definition updateHeaders :: "real \<Rightarrow> state \<Rightarrow> state" where
  "updateHeaders scrollTop st =
     (let scrollThreshold = 10;
          totalScroll = scrollTop - scrollThreshold
      in if totalScroll \<le> 0 then
           (if isNavExpanded st
            then fold (\<lambda>row. upd_elem row reset_nav_row) (navRows st) st
            else st)
         else if isNavExpanded st then
           fold (move_header totalScroll) (headerInfo (elems st) (navRows st) 0) st
         else st)"

text \<open>
  The frame callback of the scroll listener, and the resize listener, which reads the
  width the window has by then.
\<close>

definition on_scroll :: "real \<Rightarrow> state \<Rightarrow> state" where
  "on_scroll scrollTop st = (updateHeaders scrollTop st)\<lparr>lastScrollTop := scrollTop\<rparr>"

definition on_resize :: "int \<Rightarrow> state \<Rightarrow> state" where
  "on_resize width st = updateButtonPosition (st\<lparr>innerWidth := width\<rparr>)"

subsection \<open>Public methods\<close>

definition getCurrentRegion :: "state \<Rightarrow> int" where
  "getCurrentRegion st = regionWhichTheTextIsAt st"

definition setCurrentRegion :: "int \<Rightarrow> state \<Rightarrow> state" where
  "setCurrentRegion region st = st\<lparr>regionWhichTheTextIsAt := region\<rparr>"

definition getNavExpandedState :: "state \<Rightarrow> bool" where
  "getNavExpandedState st = isNavExpanded st"

definition getMaxNavRows :: "state \<Rightarrow> int" where
  "getMaxNavRows st = MAX_NAV_ROWS"

subsection \<open>The event loop\<close>

text \<open>
  The pending timer that fires next, with the timers that stay pending: the one that
  is due first, and of several due at the same time the one registered first.
\<close>

fun pick :: "(real \<times> callback) list \<Rightarrow> ((real \<times> callback) \<times> (real \<times> callback) list) option" where
  "pick [] = None"
| "pick (t # ts) =
     (case pick ts of
        None \<Rightarrow> Some (t, [])
      | Some (u, rest) \<Rightarrow> if fst u < fst t then Some (u, t # rest) else Some (t, ts))"

definition fire_next :: "state \<Rightarrow> state" where
  "fire_next st =
     (case pick (timers st) of
        None \<Rightarrow> st
      | Some ((due, cb), rest) \<Rightarrow>
          run_callback cb (st\<lparr>timers := rest, now := max (now st) due\<rparr>))"

text \<open>
  What happens to the object after construction: a click on the toggle, a scroll, a
  resize, a timer that fires, a call of \<^verbatim>\<open>setCurrentRegion\<close>.
\<close>

datatype activity = Toggle | ScrollTo real | ResizeTo int | TimerFires | SetRegion int

fun perform :: "activity \<Rightarrow> state \<Rightarrow> state" where
  "perform Toggle st = toggleNavExpansion st"
| "perform (ScrollTo scrollTop) st = on_scroll scrollTop st"
| "perform (ResizeTo width) st = on_resize width st"
| "perform TimerFires st = fire_next st"
| "perform (SetRegion region) st = setCurrentRegion region st"

text \<open>
  Firing timers until none is pending. A callback registers at most one new timer, and
  only \<open>HideContainer\<close> does, so the loop ends.
\<close>

function run_timers :: "state \<Rightarrow> state" where
  "run_timers st = (if timers st = [] then st else run_timers (fire_next st))"
  by pat_completeness auto
termination
proof (relation "measure (\<lambda>st. length (timers st)
                  + length (filter (\<lambda>t. snd t = HideContainer) (timers st)))")
  show "wf (measure (\<lambda>st. length (timers st)
                  + length (filter (\<lambda>t. snd t = HideContainer) (timers st))))"
    by simp
next
  fix st :: state
  assume ne: "timers st \<noteq> []"
  have none: "pick ts = None \<longleftrightarrow> ts = []" for ts
    by (cases ts) (auto split: option.splits prod.splits)
  have count: "pick ts = Some (u, rest) \<Longrightarrow>
      length (filter P ts) = length (filter P rest) + (if P u then 1 else 0)" for ts u rest P
  proof (induction ts arbitrary: u rest)
    case Nil
    then show ?case by simp
  next
    case (Cons t ts)
    show ?case
    proof (cases "pick ts")
      case None
      with Cons.prems show ?thesis by (auto simp: none)
    next
      case (Some p)
      obtain v r where p: "p = (v, r)" by (cases p)
      from Cons.IH [of v r] Some p
      have "length (filter P ts) = length (filter P r) + (if P v then 1 else 0)" by simp
      with Cons.prems Some p show ?thesis by (auto split: if_splits)
    qed
  qed
  have fold_elems: "timers (fold (\<lambda>r. upd_elem r (f r)) rs s) = timers s" for f rs s
    by (induction rs arbitrary: s) (simp_all add: upd_elem_def)
  have after: "timers (run_callback cb s) =
      timers s @ (if cb = HideContainer \<and> dynamicNavContainer s \<noteq> None
                  then [(now s + 150, ResetPositions)] else [])" for cb s
    by (cases cb)
       (auto simp: fold_elems setTimeout_def upd_elem_def Let_def split: option.splits)
  from ne obtain due cb rest where p: "pick (timers st) = Some ((due, cb), rest)"
    by (cases "pick (timers st)") (auto simp: none)
  have l: "length (timers st) = length rest + 1"
    using count [OF p, of "\<lambda>_. True"] by simp
  have h: "length (filter (\<lambda>t. snd t = HideContainer) (timers st)) =
           length (filter (\<lambda>t. snd t = HideContainer) rest)
           + (if cb = HideContainer then 1 else 0)"
    using count [OF p, of "\<lambda>t. snd t = HideContainer"] by simp
  show "(fire_next st, st) \<in> measure (\<lambda>st. length (timers st)
          + length (filter (\<lambda>t. snd t = HideContainer) (timers st)))"
    using l h by (simp add: fire_next_def p after)
qed

declare run_timers.simps [simp del]

subsection \<open>Auxiliary definitions\<close>

text \<open>The transform that \<open>move_header\<close> writes on the element of a header.\<close>

definition header_transform :: "real \<Rightarrow> header_info \<Rightarrow> css" where
  "header_transform ts h =
     (if ts \<ge> real (startPosition h)
      then TranslateY_px (if ts - real (startPosition h) \<ge> real (height h)
                          then - real (height h) else - (ts - real (startPosition h)))
      else Lit ''translateY(0)'')"

text \<open>The elements of a list of identities that are on the page, in the order of the list.\<close>

definition resolved :: "elem_id set \<Rightarrow> elem_id list \<Rightarrow> elem_id list" where
  "resolved doc ids = filter (\<lambda>i. i \<in> doc) ids"

fun opt_list :: "'a option \<Rightarrow> 'a list" where
  "opt_list None = []"
| "opt_list (Some x) = [x]"

text \<open>One write of \<open>upd_elem\<close>, on the store alone.\<close>

definition restyle ::
  "(element \<Rightarrow> element) \<Rightarrow> elem_id \<Rightarrow> (elem_id \<Rightarrow> element) \<Rightarrow> elem_id \<Rightarrow> element" where
  "restyle f r els = els(r := f (els r))"

text \<open>One write of \<open>move_header\<close>, on the store alone.\<close>

definition put_header :: "real \<Rightarrow> header_info \<Rightarrow> (elem_id \<Rightarrow> element) \<Rightarrow> elem_id \<Rightarrow> element" where
  "put_header ts h els = els(element h := (els (element h))\<lparr>style_transform := header_transform ts h\<rparr>)"

text \<open>
  The state a collapse ends in: every nav row, title row and the content untranslated,
  the nav rows opaque.
\<close>

definition neutral :: "state \<Rightarrow> bool" where
  "neutral s \<longleftrightarrow>
     (\<forall>r \<in> set (navRows s). style_transform (elems s r) = Lit ''translateY(0)''
                            \<and> style_opacity (elems s r) = Lit ''1'')
   \<and> (\<forall>r \<in> set (titleRows s). style_transform (elems s r) = Lit ''translateY(0)'')
   \<and> (\<forall>content. contentScroll s = Some content \<longrightarrow>
          style_transform (elems s content) = Lit ''translateY(0)'')"

text \<open>
  For an arbitrary history of toggles: the callbacks that lead to a reset, the per-row
  callbacks of a collapse and of \<^verbatim>\<open>expandRow\<close>, the nav rows all untranslated, and
  what every state of the page satisfies. The container is there; no callback of
  \<^verbatim>\<open>expandRow\<close> is pending; behind each pending row callback of a collapse a
  callback that leads to a reset is due later; and while the navigation is collapsed
  the nav rows are untranslated unless such a callback is still pending.
\<close>

fun restores :: "callback \<Rightarrow> bool" where
  "restores HideContainer = True"
| "restores ResetPositions = True"
| "restores cb = False"

fun collapse_step :: "callback \<Rightarrow> bool" where
  "collapse_step (CollapseStep row rowHeight cell) = True"
| "collapse_step cb = False"

fun expand_row_step :: "callback \<Rightarrow> bool" where
  "expand_row_step (ExpandRowStep i distance scheduleTime) = True"
| "expand_row_step cb = False"

definition rows_in_place :: "state \<Rightarrow> bool" where
  "rows_in_place s \<longleftrightarrow>
     (\<forall>r \<in> set (navRows s). style_transform (elems s r) = Lit ''translateY(0)'')"

definition settling :: "state \<Rightarrow> bool" where
  "settling s \<longleftrightarrow>
     dynamicNavContainer s \<noteq> None
   \<and> (\<forall>t \<in> set (timers s). \<not> expand_row_step (snd t))
   \<and> (\<forall>t \<in> set (timers s). collapse_step (snd t) \<longrightarrow>
         (\<exists>u \<in> set (timers s). fst t < fst u \<and> restores (snd u)))
   \<and> (\<not> isNavExpanded s \<longrightarrow>
         rows_in_place s \<or> (\<exists>u \<in> set (timers s). restores (snd u)))"

text \<open>
  What holds from a call of \<^verbatim>\<open>collapseNavRowsWithContentMovement\<close> until the last
  timer has fired: as before for the pending callbacks; a callback that leads to a reset
  is pending, or the rows are back in place and the container is closed; and the
  callback that closes the container is pending, or the container is closed.
\<close>

definition restoring :: "elem_id \<Rightarrow> state \<Rightarrow> bool" where
  "restoring c s \<longleftrightarrow>
     dynamicNavContainer s = Some c
   \<and> (\<forall>t \<in> set (timers s). \<not> expand_row_step (snd t))
   \<and> (\<forall>t \<in> set (timers s). collapse_step (snd t) \<longrightarrow>
         (\<exists>u \<in> set (timers s). fst t < fst u \<and> restores (snd u)))
   \<and> ((\<exists>u \<in> set (timers s). restores (snd u))
        \<or> (neutral s \<and> style_maxHeight (elems s c) = Lit ''0''))
   \<and> ((\<exists>u \<in> set (timers s). snd u = HideContainer)
        \<or> style_maxHeight (elems s c) = Lit ''0'')"

text \<open>
  A page for the concrete scenarios: every element is there, \<^verbatim>\<open>nav-row-1\<close> is 40
  pixels high and \<^verbatim>\<open>nav-row-2\<close> 60, the title rows lie below them.
\<close>

definition blank :: element where
  "blank = \<lparr>style_position = Lit [], style_zIndex = Lit [], style_transition = Lit [],
            style_transform = Lit [], style_opacity = Lit [], style_maxHeight = Lit [],
            style_top = Lit [], style_right = Lit [], innerHTML = [], textContent = [],
            offsetHeight = 0, rect_top = 0, rect_bottom = 0\<rparr>"

definition box :: "nat \<Rightarrow> real \<Rightarrow> element" where
  "box h y = blank\<lparr>offsetHeight := h, rect_top := y, rect_bottom := y + real h\<rparr>"

definition demo_page :: page where
  "demo_page =
     \<lparr>page_present = {ContentScroll, NavRow 1, NavRow 2, NavToggle, DynamicNavContainer,
                       TitleRow1, TitleRow2, ToggleButton, NavToggleSvg, NavToggleSpan},
      page_elems = (\<lambda>_. blank)
        (NavRow 1 := box 40 0, NavRow 2 := box 60 40,
         TitleRow1 := box 30 100, TitleRow2 := box 30 130),
      page_innerWidth = 1024\<rparr>"

definition demo_state :: state where
  "demo_state = projr (constructor demo_page)"

text \<open>
  The same page with the first title row drawn 20 pixels below the top, so that it
  overlaps \<^verbatim>\<open>nav-row-1\<close>, which ends at 40.
\<close>

definition folded_page :: page where
  "folded_page =
     demo_page\<lparr>page_elems := (page_elems demo_page)
        (TitleRow1 := box 30 20, TitleRow2 := box 30 50)\<rparr>"

definition folded_state :: state where
  "folded_state = projr (constructor folded_page)"

text \<open>The same page without \<^verbatim>\<open>dynamic-nav-container\<close>.\<close>

definition containerless_page :: page where
  "containerless_page =
     demo_page\<lparr>page_present := page_present demo_page - {DynamicNavContainer}\<rparr>"

definition containerless_state :: state where
  "containerless_state = projr (constructor containerless_page)"

text \<open>The page of the scenarios without \<^verbatim>\<open>nav-row-1\<close>.\<close>

definition headless_page :: page where
  "headless_page = demo_page\<lparr>page_present := page_present demo_page - {NavRow 1}\<rparr>"

section \<open>Auxiliary facts\<close>

lemma fold_upd_elem:
  "fold (\<lambda>r. upd_elem r (f r)) rs st =
     st\<lparr>elems := fold (\<lambda>r els. els(r := f r (els r))) rs (elems st)\<rparr>"
  by (induction rs arbitrary: st) (simp_all add: upd_elem_def)

lemma fold_setTimeout:
  "fold (\<lambda>x. setTimeout (c x) (d x)) xs st =
     st\<lparr>timers := timers st @ map (\<lambda>x. (now st + max 0 (d x), c x)) xs\<rparr>"
  by (induction xs arbitrary: st) (simp_all add: setTimeout_def)

lemma move_header_upd:
  "move_header ts h st =
     upd_elem (element h) (\<lambda>e. e\<lparr>style_transform := header_transform ts h\<rparr>) st"
  by (simp add: move_header_def header_transform_def Let_def)

lemma fold_move_header:
  "fold (move_header ts) hs st =
     st\<lparr>elems := fold (\<lambda>h els. els(element h :=
                          (els (element h))\<lparr>style_transform := header_transform ts h\<rparr>))
                      hs (elems st)\<rparr>"
  by (induction hs arbitrary: st) (simp_all add: move_header_upd upd_elem_def)

lemma demo_constructed: "constructor demo_page = Inr demo_state"
  by (simp add: demo_state_def constructor_def lookups_def demo_page_def getElementById_def Let_def)

subsection \<open>Initialisation and the constructor\<close>

lemma assign_transform_minus_px_fields [simp]:
  "style_opacity (assign_transform_minus_px d e) = style_opacity e"
  "style_maxHeight (assign_transform_minus_px d e) = style_maxHeight e"
  "style_transition (assign_transform_minus_px d e) = style_transition e"
  "offsetHeight (assign_transform_minus_px d e) = offsetHeight e"
  "rect_top (assign_transform_minus_px d e) = rect_top e"
  "rect_bottom (assign_transform_minus_px d e) = rect_bottom e"
  by (simp_all add: assign_transform_minus_px_def)

lemma assign_transition_ms_fields [simp]:
  "style_opacity (assign_transition_ms T e) = style_opacity e"
  "style_maxHeight (assign_transition_ms T e) = style_maxHeight e"
  "style_transform (assign_transition_ms T e) = style_transform e"
  "offsetHeight (assign_transition_ms T e) = offsetHeight e"
  "rect_top (assign_transition_ms T e) = rect_top e"
  "rect_bottom (assign_transition_ms T e) = rect_bottom e"
  by (cases T; simp)+

lemma init_nav_row_eq:
  "init_nav_row i st =
     st\<lparr>navRows := navRows st @ resolved (present st) [NavRow i],
        elems := (if NavRow i \<in> present st
                  then (elems st)(NavRow i := nav_row_initial_style (elems st (NavRow i)))
                  else elems st)\<rparr>"
  by (simp add: init_nav_row_def getElementById_def resolved_def upd_elem_def)

lemma init_title_row_eq:
  "init_title_row ref st =
     st\<lparr>titleRows := titleRows st @ opt_list ref,
        displayedRowRegistry := displayedRowRegistry st @ map Some (opt_list ref),
        elems := (case ref of None \<Rightarrow> elems st
                  | Some t \<Rightarrow> (elems st)(t := title_row_initial_style (elems st t)))\<rparr>"
  by (cases ref) (simp_all add: init_title_row_def upd_elem_def)



lemma upd_elem_fields [simp]:
  "timers (upd_elem r f st) = timers st"
  "now (upd_elem r f st) = now st"
  "present (upd_elem r f st) = present st"
  "innerWidth (upd_elem r f st) = innerWidth st"
  "cells (upd_elem r f st) = cells st"
  "next_cell (upd_elem r f st) = next_cell st"
  "navRows (upd_elem r f st) = navRows st"
  "titleRows (upd_elem r f st) = titleRows st"
  "contentScroll (upd_elem r f st) = contentScroll st"
  "dynamicNavContainer (upd_elem r f st) = dynamicNavContainer st"
  "navToggle (upd_elem r f st) = navToggle st"
  "isNavExpanded (upd_elem r f st) = isNavExpanded st"
  "displayedRowRegistry (upd_elem r f st) = displayedRowRegistry st"
  "transitionPace (upd_elem r f st) = transitionPace st"
  "regionWhichTheTextIsAt (upd_elem r f st) = regionWhichTheTextIsAt st"
  "elems (upd_elem r f st) = (elems st)(r := f (elems st r))"
  by (simp_all add: upd_elem_def)

lemmas initializeNavRows_unfold =
  initializeNavRows_def Let_def init_nav_row_eq init_title_row_eq resolved_def

lemma initializeNavRows_fields [simp]:
  "navRows (initializeNavRows st) = resolved (present st) [NavRow 1, NavRow 2]"
  "titleRows (initializeNavRows st) = opt_list (titleRow1 st) @ opt_list (titleRow2 st)"
  "displayedRowRegistry (initializeNavRows st) =
     js_at (map Some (resolved (present st) [NavRow 1, NavRow 2])) 0
     # map Some (opt_list (titleRow1 st) @ opt_list (titleRow2 st))"
  "present (initializeNavRows st) = present st"
  "timers (initializeNavRows st) = timers st"
  "now (initializeNavRows st) = now st"
  "innerWidth (initializeNavRows st) = innerWidth st"
  "dynamicNavContainer (initializeNavRows st) = dynamicNavContainer st"
  "contentScroll (initializeNavRows st) = contentScroll st"
  "navToggle (initializeNavRows st) = navToggle st"
  "transitionPace (initializeNavRows st) = transitionPace st"
  "regionWhichTheTextIsAt (initializeNavRows st) = regionWhichTheTextIsAt st"
  "clickListener (initializeNavRows st) = clickListener st"
  "scrollListener (initializeNavRows st) = scrollListener st"
  "next_cell (initializeNavRows st) = next_cell st"
  by (simp_all add: initializeNavRows_unfold)

lemma initializeNavRows_geometry [simp]:
  "offsetHeight (elems (initializeNavRows st) x) = offsetHeight (elems st x)"
  "rect_top (elems (initializeNavRows st) x) = rect_top (elems st x)"
  "rect_bottom (elems (initializeNavRows st) x) = rect_bottom (elems st x)"
  by (simp_all add: initializeNavRows_unfold nav_row_initial_style_def
        title_row_initial_style_def split: option.splits)

lemma setupEventListeners_fields [simp]:
  "navRows (setupEventListeners st) = navRows st"
  "titleRows (setupEventListeners st) = titleRows st"
  "displayedRowRegistry (setupEventListeners st) = displayedRowRegistry st"
  "present (setupEventListeners st) = present st"
  "timers (setupEventListeners st) = timers st"
  "now (setupEventListeners st) = now st"
  "innerWidth (setupEventListeners st) = innerWidth st"
  "dynamicNavContainer (setupEventListeners st) = dynamicNavContainer st"
  "contentScroll (setupEventListeners st) = contentScroll st"
  "navToggle (setupEventListeners st) = navToggle st"
  "transitionPace (setupEventListeners st) = transitionPace st"
  "regionWhichTheTextIsAt (setupEventListeners st) = regionWhichTheTextIsAt st"
  "isNavExpanded (setupEventListeners st) = isNavExpanded st"
  "elems (setupEventListeners st) = elems st"
  "clickListener (setupEventListeners st) = (clickListener st \<or> navToggle st \<noteq> None)"
  "scrollListener (setupEventListeners st) = (scrollListener st \<or> contentScroll st \<noteq> None)"
  "resizeListener (setupEventListeners st) = True"
  "next_cell (setupEventListeners st) = next_cell st"
  by (simp_all add: setupEventListeners_def Let_def)

lemma updateToggleButton_fields [simp]:
  "navRows (updateToggleButton st) = navRows st"
  "titleRows (updateToggleButton st) = titleRows st"
  "displayedRowRegistry (updateToggleButton st) = displayedRowRegistry st"
  "present (updateToggleButton st) = present st"
  "timers (updateToggleButton st) = timers st"
  "now (updateToggleButton st) = now st"
  "innerWidth (updateToggleButton st) = innerWidth st"
  "dynamicNavContainer (updateToggleButton st) = dynamicNavContainer st"
  "contentScroll (updateToggleButton st) = contentScroll st"
  "navToggle (updateToggleButton st) = navToggle st"
  "transitionPace (updateToggleButton st) = transitionPace st"
  "regionWhichTheTextIsAt (updateToggleButton st) = regionWhichTheTextIsAt st"
  "clickListener (updateToggleButton st) = clickListener st"
  "scrollListener (updateToggleButton st) = scrollListener st"
  "resizeListener (updateToggleButton st) = resizeListener st"
  "next_cell (updateToggleButton st) = next_cell st"
  by (simp_all add: updateToggleButton_def upd_elem_def split: option.splits)

lemma updateToggleButton_geometry [simp]:
  "offsetHeight (elems (updateToggleButton st) x) = offsetHeight (elems st x)"
  "rect_top (elems (updateToggleButton st) x) = rect_top (elems st x)"
  "rect_bottom (elems (updateToggleButton st) x) = rect_bottom (elems st x)"
  by (simp_all add: updateToggleButton_def upd_elem_def split: option.splits)

lemma updateButtonPosition_fields [simp]:
  "navRows (updateButtonPosition st) = navRows st"
  "titleRows (updateButtonPosition st) = titleRows st"
  "displayedRowRegistry (updateButtonPosition st) = displayedRowRegistry st"
  "present (updateButtonPosition st) = present st"
  "timers (updateButtonPosition st) = timers st"
  "now (updateButtonPosition st) = now st"
  "innerWidth (updateButtonPosition st) = innerWidth st"
  "dynamicNavContainer (updateButtonPosition st) = dynamicNavContainer st"
  "contentScroll (updateButtonPosition st) = contentScroll st"
  "navToggle (updateButtonPosition st) = navToggle st"
  "transitionPace (updateButtonPosition st) = transitionPace st"
  "regionWhichTheTextIsAt (updateButtonPosition st) = regionWhichTheTextIsAt st"
  "clickListener (updateButtonPosition st) = clickListener st"
  "scrollListener (updateButtonPosition st) = scrollListener st"
  "resizeListener (updateButtonPosition st) = resizeListener st"
  "next_cell (updateButtonPosition st) = next_cell st"
  by (simp_all add: updateButtonPosition_def upd_elem_def Let_def split: option.splits)

lemma updateButtonPosition_geometry [simp]:
  "offsetHeight (elems (updateButtonPosition st) x) = offsetHeight (elems st x)"
  "rect_top (elems (updateButtonPosition st) x) = rect_top (elems st x)"
  "rect_bottom (elems (updateButtonPosition st) x) = rect_bottom (elems st x)"
  by (simp_all add: updateButtonPosition_def upd_elem_def Let_def split: option.splits)

lemma lookups_fields [simp]:
  "present (lookups pg) = page_present pg"
  "elems (lookups pg) = page_elems pg"
  "innerWidth (lookups pg) = page_innerWidth pg"
  "now (lookups pg) = 0"
  "timers (lookups pg) = []"
  "clickListener (lookups pg) = False"
  "scrollListener (lookups pg) = False"
  "contentScroll (lookups pg) = getElementById (page_present pg) ContentScroll"
  "navRow1 (lookups pg) = getElementById (page_present pg) (NavRow 1)"
  "navToggle (lookups pg) = getElementById (page_present pg) NavToggle"
  "dynamicNavContainer (lookups pg) = getElementById (page_present pg) DynamicNavContainer"
  "titleRow1 (lookups pg) = getElementById (page_present pg) TitleRow1"
  "titleRow2 (lookups pg) = getElementById (page_present pg) TitleRow2"
  "regionWhichTheTextIsAt (lookups pg) = 1"
  "isNavExpanded (lookups pg) = False"
  "next_cell (lookups pg) = 0"
  by (simp_all add: lookups_def Let_def)

lemma constructor_eq:
  "constructor pg =
     (if NavRow 1 \<in> page_present pg
      then Inr (init ((lookups pg)\<lparr>transitionPace :=
                         js_div 100 (real (offsetHeight (page_elems pg (NavRow 1))))\<rparr>))
      else Inl TypeError)"
  by (simp add: constructor_def Let_def getElementById_def)

lemma constructor_fields:
  assumes "constructor pg = Inr st"
  shows "navRows st = resolved (page_present pg) [NavRow 1, NavRow 2]"
    and "titleRows st = resolved (page_present pg) [TitleRow1, TitleRow2]"
    and "displayedRowRegistry st =
           map Some (NavRow 1 # resolved (page_present pg) [TitleRow1, TitleRow2])"
    and "dynamicNavContainer st = getElementById (page_present pg) DynamicNavContainer"
    and "contentScroll st = getElementById (page_present pg) ContentScroll"
    and "navToggle st = getElementById (page_present pg) NavToggle"
    and "regionWhichTheTextIsAt st = 1"
    and "timers st = []"
    and "now st = 0"
    and "present st = page_present pg"
    and "innerWidth st = page_innerWidth pg"
    and "transitionPace st = js_div 100 (real (offsetHeight (page_elems pg (NavRow 1))))"
    and "clickListener st = (NavToggle \<in> page_present pg)"
    and "scrollListener st = (ContentScroll \<in> page_present pg)"
    and "resizeListener st"
    and "offsetHeight (elems st x) = offsetHeight (page_elems pg x)"
    and "rect_top (elems st x) = rect_top (page_elems pg x)"
    and "rect_bottom (elems st x) = rect_bottom (page_elems pg x)"
    and "next_cell st = 0"
proof -
  define obj where "obj = (lookups pg)\<lparr>transitionPace :=
                         js_div 100 (real (offsetHeight (page_elems pg (NavRow 1))))\<rparr>"
  from assms have n1: "NavRow 1 \<in> page_present pg" and st: "st = init obj"
    by (simp_all add: constructor_eq obj_def split: if_splits)
  have obj: "present obj = page_present pg" "elems obj = page_elems pg"
      "innerWidth obj = page_innerWidth pg" "now obj = 0" "timers obj = []"
      "clickListener obj = False" "scrollListener obj = False"
      "contentScroll obj = getElementById (page_present pg) ContentScroll"
      "navToggle obj = getElementById (page_present pg) NavToggle"
      "dynamicNavContainer obj = getElementById (page_present pg) DynamicNavContainer"
      "titleRow1 obj = getElementById (page_present pg) TitleRow1"
      "titleRow2 obj = getElementById (page_present pg) TitleRow2"
      "transitionPace obj = js_div 100 (real (offsetHeight (page_elems pg (NavRow 1))))"
      "regionWhichTheTextIsAt obj = 1"
    by (simp_all add: obj_def)
  show "navRows st = resolved (page_present pg) [NavRow 1, NavRow 2]"
    by (simp add: st init_def obj)
  show "titleRows st = resolved (page_present pg) [TitleRow1, TitleRow2]"
    by (simp add: st init_def obj getElementById_def resolved_def)
  show "displayedRowRegistry st =
           map Some (NavRow 1 # resolved (page_present pg) [TitleRow1, TitleRow2])"
    using n1 by (simp add: st init_def obj getElementById_def resolved_def js_at_def)
  show "dynamicNavContainer st = getElementById (page_present pg) DynamicNavContainer"
    by (simp add: st init_def obj)
  show "contentScroll st = getElementById (page_present pg) ContentScroll"
    by (simp add: st init_def obj)
  show "navToggle st = getElementById (page_present pg) NavToggle"
    by (simp add: st init_def obj)
  show "regionWhichTheTextIsAt st = 1"
    by (simp add: st init_def obj)
  show "timers st = []"
    by (simp add: st init_def obj)
  show "now st = 0"
    by (simp add: st init_def obj)
  show "present st = page_present pg"
    by (simp add: st init_def obj)
  show "innerWidth st = page_innerWidth pg"
    by (simp add: st init_def obj)
  show "transitionPace st = js_div 100 (real (offsetHeight (page_elems pg (NavRow 1))))"
    by (simp add: st init_def obj)
  show "clickListener st = (NavToggle \<in> page_present pg)"
    by (simp add: st init_def obj getElementById_def)
  show "scrollListener st = (ContentScroll \<in> page_present pg)"
    by (simp add: st init_def obj getElementById_def)
  show "resizeListener st"
    by (simp add: st init_def obj)
  show "offsetHeight (elems st x) = offsetHeight (page_elems pg x)"
    by (simp add: st init_def obj)
  show "rect_top (elems st x) = rect_top (page_elems pg x)"
    by (simp add: st init_def obj)
  show "rect_bottom (elems st x) = rect_bottom (page_elems pg x)"
    by (simp add: st init_def obj)
  show "next_cell st = 0"
    by (simp add: st init_def obj_def)
qed

lemma indexOf_nth:
  "distinct xs \<Longrightarrow> k < length xs \<Longrightarrow> indexOf xs (xs ! k) = int k"
proof (induction xs arbitrary: k)
  case Nil
  then show ?case by simp
next
  case (Cons y ys)
  show ?case
  proof (cases k)
    case 0
    then show ?thesis by simp
  next
    case (Suc j)
    with Cons.prems have j: "j < length ys" and ne: "y \<noteq> ys ! j" by auto
    from Cons.IH [OF _ j] Cons.prems have "indexOf ys (ys ! j) = int j" by simp
    with Suc ne show ?thesis by (simp add: Let_def)
  qed
qed

lemma registry_index:
  assumes "distinct rs" "k < length rs"
  shows "indexOf (map Some rs) (Some (rs ! k)) = int k"
proof -
  have "distinct (map Some rs)" using assms(1) by (simp add: distinct_map)
  from indexOf_nth [OF this, of k] assms show ?thesis by simp
qed

lemma expandNavRows_timers:
  assumes "dynamicNavContainer st = Some c"
  shows "timers (expandNavRows st) =
           timers st
           @ map (\<lambda>(index, row). (now st + real index * 100, NavRowAppear row))
               (enumerate 0 (navRows st))
           @ [(now st + (real (length (navRows st)) * 100 + 100), TitleRowsReset)]"
  using assms
  by (simp add: expandNavRows_def Let_def split_def fold_setTimeout setTimeout_def)

lemma fold_upd_restyle:
  "fold (\<lambda>r. upd_elem r f) rs st = st\<lparr>elems := fold (restyle f) rs (elems st)\<rparr>"
  by (induction rs arbitrary: st) (simp_all add: upd_elem_def restyle_def)

lemma fold_restyle_pres:
  assumes "\<And>e. P e \<Longrightarrow> P (f e)" and "P (els x)"
  shows "P (fold (restyle f) rs els x)"
  using assms(2)
proof (induction rs arbitrary: els)
  case Nil
  then show ?case by simp
next
  case (Cons a rs)
  have "P (restyle f a els x)"
    using Cons.prems assms(1) by (auto simp: restyle_def)
  then have "P (fold (restyle f) rs (restyle f a els) x)"
    by (rule Cons.IH)
  then show ?case by simp
qed

lemma fold_restyle_estab:
  assumes "\<And>e. P (f e)" and "x \<in> set rs"
  shows "P (fold (restyle f) rs els x)"
  using assms(2)
proof (induction rs arbitrary: els)
  case Nil
  then show ?case by simp
next
  case (Cons a rs)
  show ?case
  proof (cases "x \<in> set rs")
    case True
    then have "P (fold (restyle f) rs (restyle f a els) x)"
      by (rule Cons.IH)
    then show ?thesis by simp
  next
    case False
    with Cons.prems have xa: "x = a" by simp
    have "P (restyle f a els x)"
      using assms(1) xa by (simp add: restyle_def)
    then have "P (fold (restyle f) rs (restyle f a els) x)"
      by (rule fold_restyle_pres [rotated]) (rule assms(1))
    then show ?thesis by simp
  qed
qed

lemma title_reset_elems:
  assumes "r \<in> set (titleRows st)"
  shows "style_transform (elems (run_callback TitleRowsReset st) r) = Lit ''translateY(0)''"
proof -
  have "style_transform (reset_transform e) = Lit ''translateY(0)''" for e
    by (simp add: reset_transform_def)
  from fold_restyle_estab [where P = "\<lambda>e. style_transform e = Lit ''translateY(0)''"
      and f = reset_transform, OF this assms]
  show ?thesis by (simp add: fold_upd_restyle)
qed

lemma folded_constructed: "constructor folded_page = Inr folded_state"
  by (simp add: folded_state_def constructor_eq folded_page_def demo_page_def)

lemmas demo_fields =
  constructor_fields [OF demo_constructed, unfolded demo_page_def resolved_def getElementById_def, simplified]

lemma containerless_constructed: "constructor containerless_page = Inr containerless_state"
  by (simp add: containerless_state_def constructor_eq containerless_page_def demo_page_def)

lemmas containerless_fields =
  constructor_fields [OF containerless_constructed, unfolded containerless_page_def demo_page_def resolved_def getElementById_def, simplified]

lemmas folded_fields =
  constructor_fields [OF folded_constructed, unfolded folded_page_def demo_page_def resolved_def getElementById_def, simplified]

lemma constructor_registry:
  assumes "constructor pg = Inr st"
  shows "\<exists>rs. displayedRowRegistry st = map Some rs \<and> distinct rs"
proof -
  have "distinct (NavRow 1 # resolved (page_present pg) [TitleRow1, TitleRow2])"
    by (simp add: resolved_def)
  with constructor_fields(3) [OF assms] show ?thesis by blast
qed

lemma constructor_navRows_distinct:
  "constructor pg = Inr st \<Longrightarrow> distinct (navRows st)"
  by (simp add: constructor_fields(1) resolved_def)

subsection \<open>The expansion flag\<close>

lemma isNavExpanded_updateHeaders [simp]:
  "isNavExpanded (updateHeaders s st) = isNavExpanded st"
  by (simp add: updateHeaders_def Let_def fold_upd_elem fold_move_header)

lemma isNavExpanded_updateButtonPosition [simp]:
  "isNavExpanded (updateButtonPosition st) = isNavExpanded st"
  by (simp add: updateButtonPosition_def Let_def upd_elem_def split: option.splits)

lemma isNavExpanded_updateToggleButton [simp]:
  "isNavExpanded (updateToggleButton st) = isNavExpanded st"
  by (simp add: updateToggleButton_def Let_def upd_elem_def split: option.splits)

lemma isNavExpanded_run_callback [simp]:
  "isNavExpanded (run_callback cb st) = isNavExpanded st"
  by (cases cb)
     (simp_all add: fold_upd_elem setTimeout_def upd_elem_def Let_def split: option.splits)

lemma isNavExpanded_fire_next [simp]:
  "isNavExpanded (fire_next st) = isNavExpanded st"
  by (simp add: fire_next_def split: option.splits prod.splits)

lemma isNavExpanded_expandNavRows [simp]:
  "isNavExpanded (expandNavRows st) = isNavExpanded st"
  by (simp add: expandNavRows_def Let_def split_def fold_setTimeout setTimeout_def upd_elem_def
           split: option.splits)

lemma isNavExpanded_collapse [simp]:
  "isNavExpanded (collapseNavRowsWithContentMovement st) = isNavExpanded st"
  by (simp add: collapseNavRowsWithContentMovement_def Let_def split_def fold_setTimeout
                setTimeout_def upd_elem_def split: option.splits)

lemma isNavExpanded_toggle [simp]:
  "isNavExpanded (toggleNavExpansion st) = (\<not> isNavExpanded st)"
  by (simp add: toggleNavExpansion_def Let_def)

lemma isNavExpanded_perform:
  "isNavExpanded (perform a st) =
     (if a = Toggle then \<not> isNavExpanded st else isNavExpanded st)"
  by (cases a) (simp_all add: on_scroll_def on_resize_def setCurrentRegion_def)

lemma isNavExpanded_init [simp]: "isNavExpanded (init st) = isNavExpanded st"
  by (simp add: init_def initializeNavRows_def setupEventListeners_def init_nav_row_def
        init_title_row_def Let_def upd_elem_def split: option.splits)

lemma constructor_collapsed: "constructor pg = Inr st \<Longrightarrow> isNavExpanded st = False"
  by (auto simp: constructor_def lookups_def Let_def split: option.splits)

lemma toggles_among_activities:
  "isNavExpanded (fold perform acts st) =
     (isNavExpanded st \<noteq> odd (length (filter (\<lambda>a. a = Toggle) acts)))"
  by (induction acts arbitrary: st) (auto simp: isNavExpanded_perform)

subsection \<open>Expanding, collapsing and the scroll handler\<close>

lemma setTimeout_fields [simp]:
  "timers (setTimeout cb d st) = timers st @ [(now st + max 0 d, cb)]"
  "now (setTimeout cb d st) = now st"
  "present (setTimeout cb d st) = present st"
  "elems (setTimeout cb d st) = elems st"
  "cells (setTimeout cb d st) = cells st"
  "navRows (setTimeout cb d st) = navRows st"
  "titleRows (setTimeout cb d st) = titleRows st"
  "contentScroll (setTimeout cb d st) = contentScroll st"
  "dynamicNavContainer (setTimeout cb d st) = dynamicNavContainer st"
  "navToggle (setTimeout cb d st) = navToggle st"
  "isNavExpanded (setTimeout cb d st) = isNavExpanded st"
  "displayedRowRegistry (setTimeout cb d st) = displayedRowRegistry st"
  "transitionPace (setTimeout cb d st) = transitionPace st"
  "next_cell (setTimeout cb d st) = next_cell st"
  by (simp_all add: setTimeout_def)

lemmas expand_unfold = expandNavRows_def Let_def split_def fold_setTimeout
lemmas collapse_unfold = collapseNavRowsWithContentMovement_def Let_def split_def fold_setTimeout

lemma expandNavRows_fields [simp]:
  "navRows (expandNavRows st) = navRows st"
  "titleRows (expandNavRows st) = titleRows st"
  "displayedRowRegistry (expandNavRows st) = displayedRowRegistry st"
  "present (expandNavRows st) = present st"
  "now (expandNavRows st) = now st"
  "dynamicNavContainer (expandNavRows st) = dynamicNavContainer st"
  "contentScroll (expandNavRows st) = contentScroll st"
  "navToggle (expandNavRows st) = navToggle st"
  "transitionPace (expandNavRows st) = transitionPace st"
  "next_cell (expandNavRows st) = next_cell st"
  by (simp_all add: expand_unfold split: option.splits)

lemma expandNavRows_geometry [simp]:
  "offsetHeight (elems (expandNavRows st) x) = offsetHeight (elems st x)"
  "rect_top (elems (expandNavRows st) x) = rect_top (elems st x)"
  "rect_bottom (elems (expandNavRows st) x) = rect_bottom (elems st x)"
  by (simp_all add: expand_unfold split: option.splits)

lemma collapse_fields [simp]:
  "navRows (collapseNavRowsWithContentMovement st) = navRows st"
  "titleRows (collapseNavRowsWithContentMovement st) = titleRows st"
  "displayedRowRegistry (collapseNavRowsWithContentMovement st) = displayedRowRegistry st"
  "present (collapseNavRowsWithContentMovement st) = present st"
  "now (collapseNavRowsWithContentMovement st) = now st"
  "elems (collapseNavRowsWithContentMovement st) = elems st"
  "dynamicNavContainer (collapseNavRowsWithContentMovement st) = dynamicNavContainer st"
  "contentScroll (collapseNavRowsWithContentMovement st) = contentScroll st"
  "navToggle (collapseNavRowsWithContentMovement st) = navToggle st"
  "transitionPace (collapseNavRowsWithContentMovement st) = transitionPace st"
  by (simp_all add: collapse_unfold split: option.splits)

lemma toggle_fields [simp]:
  "navRows (toggleNavExpansion st) = navRows st"
  "titleRows (toggleNavExpansion st) = titleRows st"
  "displayedRowRegistry (toggleNavExpansion st) = displayedRowRegistry st"
  "present (toggleNavExpansion st) = present st"
  "now (toggleNavExpansion st) = now st"
  "dynamicNavContainer (toggleNavExpansion st) = dynamicNavContainer st"
  "contentScroll (toggleNavExpansion st) = contentScroll st"
  "navToggle (toggleNavExpansion st) = navToggle st"
  "transitionPace (toggleNavExpansion st) = transitionPace st"
  by (simp_all add: toggleNavExpansion_def Let_def)

lemma toggle_geometry [simp]:
  "offsetHeight (elems (toggleNavExpansion st) x) = offsetHeight (elems st x)"
  "rect_top (elems (toggleNavExpansion st) x) = rect_top (elems st x)"
  "rect_bottom (elems (toggleNavExpansion st) x) = rect_bottom (elems st x)"
  by (simp_all add: toggleNavExpansion_def Let_def)

lemma headerInfo_element [simp]: "map element (headerInfo els rows cum) = rows"
  by (induction rows arbitrary: cum) (simp_all add: Let_def)

lemma headerInfo_length [simp]: "length (headerInfo els rows cum) = length rows"
  by (induction rows arbitrary: cum) (simp_all add: Let_def)

lemma headerInfo_nth:
  "i < length rows \<Longrightarrow>
     element (headerInfo els rows cum ! i) = rows ! i
   \<and> height (headerInfo els rows cum ! i) = offsetHeight (els (rows ! i))
   \<and> startPosition (headerInfo els rows cum ! i)
       = cum + sum_list (map (\<lambda>r. offsetHeight (els r)) (take i rows))"
proof (induction rows arbitrary: cum i)
  case Nil
  then show ?case by simp
next
  case (Cons row rows)
  show ?case
  proof (cases i)
    case 0
    then show ?thesis by (simp add: Let_def)
  next
    case (Suc j)
    with Cons.prems have "j < length rows" by simp
    from Cons.IH [OF this, of "cum + offsetHeight (els row)"] Suc
    show ?thesis by (simp add: Let_def)
  qed
qed

lemma fold_move_header_put:
  "fold (move_header ts) hs st = st\<lparr>elems := fold (put_header ts) hs (elems st)\<rparr>"
  by (induction hs arbitrary: st) (simp_all add: move_header_upd upd_elem_def put_header_def)

lemma fold_put_header_other:
  "x \<notin> element ` set hs \<Longrightarrow> fold (put_header ts) hs els x = els x"
  by (induction hs arbitrary: els) (simp_all add: put_header_def)

lemma fold_put_header_nth:
  "distinct (map element hs) \<Longrightarrow> i < length hs \<Longrightarrow>
     style_transform (fold (put_header ts) hs els (element (hs ! i))) = header_transform ts (hs ! i)"
proof (induction hs arbitrary: els i)
  case Nil
  then show ?case by simp
next
  case (Cons h hs)
  show ?case
  proof (cases i)
    case 0
    from Cons.prems have "element h \<notin> element ` set hs" by simp
    then have "fold (put_header ts) hs (put_header ts h els) (element h) = put_header ts h els (element h)"
      by (rule fold_put_header_other)
    moreover have "style_transform (put_header ts h els (element h)) = header_transform ts h"
      by (simp add: put_header_def)
    ultimately show ?thesis using 0 by simp
  next
    case (Suc j)
    with Cons.prems have "distinct (map element hs)" "j < length hs" by simp_all
    from Cons.IH [OF this, of "put_header ts h els"] Suc show ?thesis by simp
  qed
qed

lemma updateHeaders_row:
  assumes "isNavExpanded st" and "distinct (navRows st)" and "s - 10 > 0"
    and "i < length (navRows st)"
  shows "style_transform (elems (updateHeaders s st) (navRows st ! i))
           = header_transform (s - 10) (headerInfo (elems st) (navRows st) 0 ! i)"
proof -
  let ?hs = "headerInfo (elems st) (navRows st) 0"
  have el: "elems (updateHeaders s st) = fold (put_header (s - 10)) ?hs (elems st)"
    using assms(1,3) by (simp add: updateHeaders_def Let_def fold_move_header_put)
  have d: "distinct (map element ?hs)" and l: "i < length ?hs"
    using assms(2,4) by simp_all
  from headerInfo_nth [OF assms(4), of "elems st" 0]
  have nth: "element (?hs ! i) = navRows st ! i" by simp
  from fold_put_header_nth [OF d l, of "s - 10" "elems st"]
  show ?thesis by (simp add: el nth)
qed

lemma translation_header_transform:
  "translation_px (header_transform ts h)
     = Some (- min (max 0 (ts - real (startPosition h))) (real (height h)))"
  by (simp add: header_transform_def min_def max_def)

subsection \<open>The timer queue\<close>

lemma pick_None [simp]: "pick ts = None \<longleftrightarrow> ts = []"
  by (cases ts) (auto split: option.splits prod.splits)

lemma run_callback_fields [simp]:
  "navRows (run_callback cb st) = navRows st"
  "titleRows (run_callback cb st) = titleRows st"
  "displayedRowRegistry (run_callback cb st) = displayedRowRegistry st"
  "present (run_callback cb st) = present st"
  "now (run_callback cb st) = now st"
  "dynamicNavContainer (run_callback cb st) = dynamicNavContainer st"
  "contentScroll (run_callback cb st) = contentScroll st"
  "navToggle (run_callback cb st) = navToggle st"
  "transitionPace (run_callback cb st) = transitionPace st"
  by (cases cb; simp add: fold_upd_restyle fold_upd_elem Let_def split: option.splits)+

lemma run_callback_timers:
  "timers (run_callback cb st) =
     timers st @ (if cb = HideContainer \<and> dynamicNavContainer st \<noteq> None
                  then [(now st + 150, ResetPositions)] else [])"
  by (cases cb) (auto simp: fold_upd_restyle fold_upd_elem Let_def split: option.splits)

lemma fire_next_fields [simp]:
  "navRows (fire_next st) = navRows st"
  "titleRows (fire_next st) = titleRows st"
  "displayedRowRegistry (fire_next st) = displayedRowRegistry st"
  "present (fire_next st) = present st"
  "dynamicNavContainer (fire_next st) = dynamicNavContainer st"
  "contentScroll (fire_next st) = contentScroll st"
  "navToggle (fire_next st) = navToggle st"
  "transitionPace (fire_next st) = transitionPace st"
  by (simp_all add: fire_next_def split: option.splits prod.splits)

lemma reset_positions_neutral: "neutral (run_callback ResetPositions s)"
proof -
  let ?T = "\<lambda>e. style_transform e = Lit ''translateY(0)''"
  let ?N = "\<lambda>e. style_transform e = Lit ''translateY(0)'' \<and> style_opacity e = Lit ''1''"
  let ?E1 = "fold (restyle reset_nav_row) (navRows s) (elems s)"
  let ?E2 = "fold (restyle reset_transform) (titleRows s) ?E1"
  have n1: "?N (?E1 r)" if "r \<in> set (navRows s)" for r
    by (rule fold_restyle_estab [where P = ?N]) (simp_all add: reset_nav_row_def that)
  have n2: "?N (?E2 r)" if "r \<in> set (navRows s)" for r
    by (rule fold_restyle_pres [where P = ?N]) (simp_all add: reset_transform_def n1 that)
  have t2: "?T (?E2 r)" if "r \<in> set (titleRows s)" for r
    by (rule fold_restyle_estab [where P = ?T]) (simp_all add: reset_transform_def that)
  show ?thesis
  proof (cases "contentScroll s")
    case None
    then have "elems (run_callback ResetPositions s) = ?E2"
      by (simp add: Let_def fold_upd_restyle)
    with None n2 t2 show ?thesis by (simp add: neutral_def del: run_callback.simps)
  next
    case (Some content)
    then have "elems (run_callback ResetPositions s) = ?E2(content := reset_transform (?E2 content))"
      by (simp add: Let_def fold_upd_restyle)
    with Some n2 t2 show ?thesis
      by (simp add: neutral_def reset_transform_def del: run_callback.simps)
  qed
qed

lemma reset_positions_maxHeight:
  "style_maxHeight (elems (run_callback ResetPositions s) x) = style_maxHeight (elems s x)"
proof -
  let ?M = "\<lambda>e. style_maxHeight e = style_maxHeight (elems s x)"
  let ?E1 = "fold (restyle reset_nav_row) (navRows s) (elems s)"
  let ?E2 = "fold (restyle reset_transform) (titleRows s) ?E1"
  have m1: "?M (?E1 x)"
    by (rule fold_restyle_pres [where P = ?M]) (simp_all add: reset_nav_row_def)
  have m2: "?M (?E2 x)"
    by (rule fold_restyle_pres [where P = ?M]) (simp_all add: reset_transform_def m1)
  show ?thesis
  proof (cases "contentScroll s")
    case None
    then have "elems (run_callback ResetPositions s) = ?E2"
      by (simp add: Let_def fold_upd_restyle)
    with m2 show ?thesis by (simp del: run_callback.simps)
  next
    case (Some content)
    then have "elems (run_callback ResetPositions s) = ?E2(content := reset_transform (?E2 content))"
      by (simp add: Let_def fold_upd_restyle)
    with m2 show ?thesis by (auto simp: reset_transform_def simp del: run_callback.simps)
  qed
qed

lemma isNavExpanded_run_timers [simp]: "isNavExpanded (run_timers st) = isNavExpanded st"
proof (induction st rule: run_timers.induct)
  case (1 st)
  then show ?case by (subst run_timers.simps) simp
qed

lemma run_timers_fields [simp]:
  "navRows (run_timers st) = navRows st"
  "titleRows (run_timers st) = titleRows st"
  "contentScroll (run_timers st) = contentScroll st"
  "dynamicNavContainer (run_timers st) = dynamicNavContainer st"
  "displayedRowRegistry (run_timers st) = displayedRowRegistry st"
proof (induction st rule: run_timers.induct)
  case (1 st)
  {
    case 1 from "1.IH"(1) show ?case by (subst run_timers.simps) simp
  next
    case 2 from "1.IH"(2) show ?case by (subst run_timers.simps) simp
  next
    case 3 from "1.IH"(3) show ?case by (subst run_timers.simps) simp
  next
    case 4 from "1.IH"(4) show ?case by (subst run_timers.simps) simp
  next
    case 5 from "1.IH"(5) show ?case by (subst run_timers.simps) simp
  }
qed

lemma collapse_timers:
  assumes "dynamicNavContainer st = Some c"
  shows "timers (collapseNavRowsWithContentMovement st) =
           timers st
           @ map (\<lambda>(index, row).
                    (now st + max 0 ((real (length (navRows st)) - 1 - real index) * 100),
                     CollapseStep row (map (\<lambda>row. offsetHeight (elems st row)) (navRows st) ! index)
                       (next_cell st)))
               (enumerate 0 (navRows st))
           @ [(now st + (real (length (navRows st)) * 100 + 500), HideContainer)]"
  using assms by (simp add: collapse_unfold ANIMATION_DURATION_def)

lemma toggle_timers:
  "timers (toggleNavExpansion st) =
     (if isNavExpanded st then timers (collapseNavRowsWithContentMovement st)
      else timers (expandNavRows st))"
  by (simp add: toggleNavExpansion_def Let_def expand_unfold collapse_unfold split: option.splits)

lemma demo_expanded_timers:
  "timers (toggleNavExpansion demo_state) =
     [(0, NavRowAppear (NavRow 1)), (100, NavRowAppear (NavRow 2)), (300, TitleRowsReset)]"
  by (simp add: toggle_timers constructor_collapsed [OF demo_constructed]
        expandNavRows_timers [of demo_state DynamicNavContainer] demo_fields)

subsection \<open>Scrolls, resizes and timers\<close>

lemma updateHeaders_collapsed: "\<not> isNavExpanded st \<Longrightarrow> updateHeaders x st = st"
  by (simp add: updateHeaders_def Let_def)

lemma updateButtonPosition_styles [simp]:
  "style_transform (elems (updateButtonPosition st) x) = style_transform (elems st x)"
  "style_opacity (elems (updateButtonPosition st) x) = style_opacity (elems st x)"
  by (simp_all add: updateButtonPosition_def upd_elem_def Let_def split: option.splits)

lemma perform_fields [simp]:
  "navRows (perform a st) = navRows st"
  "titleRows (perform a st) = titleRows st"
  "contentScroll (perform a st) = contentScroll st"
  "dynamicNavContainer (perform a st) = dynamicNavContainer st"
  "displayedRowRegistry (perform a st) = displayedRowRegistry st"
  by (cases a; simp add: on_scroll_def on_resize_def updateHeaders_def Let_def fold_upd_restyle
        fold_move_header_put setCurrentRegion_def)+

lemma activities_navRows [simp]: "navRows (fold perform acts st) = navRows st"
  by (induction acts arbitrary: st) simp_all

lemma updateHeaders_fields [simp]:
  "timers (updateHeaders x st) = timers st"
  "now (updateHeaders x st) = now st"
  "navRows (updateHeaders x st) = navRows st"
  "titleRows (updateHeaders x st) = titleRows st"
  "contentScroll (updateHeaders x st) = contentScroll st"
  "dynamicNavContainer (updateHeaders x st) = dynamicNavContainer st"
  "displayedRowRegistry (updateHeaders x st) = displayedRowRegistry st"
  by (simp_all add: updateHeaders_def Let_def fold_upd_restyle fold_move_header_put)

lemma on_scroll_fields [simp]:
  "timers (on_scroll x st) = timers st"
  "now (on_scroll x st) = now st"
  "navRows (on_scroll x st) = navRows st"
  "titleRows (on_scroll x st) = titleRows st"
  "contentScroll (on_scroll x st) = contentScroll st"
  "dynamicNavContainer (on_scroll x st) = dynamicNavContainer st"
  "displayedRowRegistry (on_scroll x st) = displayedRowRegistry st"
  "isNavExpanded (on_scroll x st) = isNavExpanded st"
  by (simp_all add: on_scroll_def)

lemma on_resize_fields [simp]:
  "timers (on_resize w st) = timers st"
  "now (on_resize w st) = now st"
  "navRows (on_resize w st) = navRows st"
  "dynamicNavContainer (on_resize w st) = dynamicNavContainer st"
  "isNavExpanded (on_resize w st) = isNavExpanded st"
  by (simp_all add: on_resize_def)

lemma fire_next_timers:
  "timers (fire_next s) =
     (case pick (timers s) of
        None \<Rightarrow> timers s
      | Some ((due, cb), rest) \<Rightarrow>
          rest @ (if cb = HideContainer \<and> dynamicNavContainer s \<noteq> None
                  then [(max (now s) due + 150, ResetPositions)] else []))"
  by (simp add: fire_next_def run_callback_timers split: option.splits prod.splits
        del: run_callback.simps)

lemma fire_next_now:
  "now (fire_next s) =
     (case pick (timers s) of None \<Rightarrow> now s | Some ((due, cb), rest) \<Rightarrow> max (now s) due)"
  by (simp add: fire_next_def split: option.splits prod.splits del: run_callback.simps)

lemma updateHeaders_geometry [simp]:
  "offsetHeight (elems (updateHeaders x st) r) = offsetHeight (elems st r)"
proof -
  let ?P = "\<lambda>e. offsetHeight e = offsetHeight (elems st r)"
  have a: "?P (fold (restyle reset_nav_row) rs (elems st) r)" for rs
    by (rule fold_restyle_pres [where P = ?P]) (simp_all add: reset_nav_row_def)
  have b: "offsetHeight (fold (put_header ts) hs E r) = offsetHeight (E r)" for ts hs E
    by (induction hs arbitrary: E) (simp_all add: put_header_def)
  show ?thesis
    by (simp add: updateHeaders_def Let_def fold_upd_restyle fold_move_header_put a b)
qed

lemma next_cell_updateHeaders [simp]: "next_cell (updateHeaders x st) = next_cell st"
  by (simp add: updateHeaders_def Let_def fold_upd_restyle fold_move_header_put)

lemma next_cell_toggle_expand:
  "\<not> isNavExpanded st \<Longrightarrow> next_cell (toggleNavExpansion st) = next_cell st"
  by (simp add: toggleNavExpansion_def Let_def)

lemma demo_scrolled_fields:
  "isNavExpanded (on_scroll 70 (toggleNavExpansion demo_state))"
  "dynamicNavContainer (on_scroll 70 (toggleNavExpansion demo_state)) = Some DynamicNavContainer"
  "navRows (on_scroll 70 (toggleNavExpansion demo_state)) = [NavRow 1, NavRow 2]"
  "now (on_scroll 70 (toggleNavExpansion demo_state)) = 0"
  "timers (on_scroll 70 (toggleNavExpansion demo_state)) =
     [(0, NavRowAppear (NavRow 1)), (100, NavRowAppear (NavRow 2)), (300, TitleRowsReset)]"
  by (simp_all add: demo_fields demo_expanded_timers constructor_collapsed [OF demo_constructed])

lemma demo_scrolled_cells:
  "next_cell (on_scroll 70 (toggleNavExpansion demo_state)) = 0"
  "offsetHeight (elems (on_scroll 70 (toggleNavExpansion demo_state)) (NavRow 1)) = 40"
  "offsetHeight (elems (on_scroll 70 (toggleNavExpansion demo_state)) (NavRow 2)) = 60"
  by (simp_all add: on_scroll_def next_cell_toggle_expand demo_fields
        constructor_collapsed [OF demo_constructed] box_def blank_def)

lemma demo_collapsing_timers:
  "timers (toggleNavExpansion (on_scroll 70 (toggleNavExpansion demo_state))) =
     [(0, NavRowAppear (NavRow 1)), (100, NavRowAppear (NavRow 2)), (300, TitleRowsReset),
      (100, CollapseStep (NavRow 1) 40 0), (0, CollapseStep (NavRow 2) 60 0),
      (700, HideContainer)]"
proof -
  let ?st = "on_scroll 70 (toggleNavExpansion demo_state)"
  have "timers (toggleNavExpansion ?st) = timers (collapseNavRowsWithContentMovement ?st)"
    using demo_scrolled_fields(1) by (simp only: toggle_timers if_True)
  also have "\<dots> = [(0, NavRowAppear (NavRow 1)), (100, NavRowAppear (NavRow 2)), (300, TitleRowsReset),
      (100, CollapseStep (NavRow 1) 40 0), (0, CollapseStep (NavRow 2) 60 0),
      (700, HideContainer)]"
    by (simp only: collapse_timers [OF demo_scrolled_fields(2)] demo_scrolled_fields)
       (use demo_scrolled_cells in simp)
  finally show ?thesis .
qed

subsection \<open>Every state of the page\<close>

lemma pick_set:
  "pick ts = Some (u, rest) \<Longrightarrow> set ts = insert u (set rest) \<and> (\<forall>t \<in> set ts. fst u \<le> fst t)"
proof (induction ts arbitrary: u rest)
  case Nil
  then show ?case by simp
next
  case (Cons t ts)
  show ?case
  proof (cases "pick ts")
    case None
    with Cons.prems show ?thesis by auto
  next
    case (Some p)
    obtain v r where p: "p = (v, r)" by (cases p)
    from Cons.IH [of v r] Some p
    have ih: "set ts = insert v (set r)" "\<forall>t \<in> set ts. fst v \<le> fst t" by simp_all
    show ?thesis
    proof (cases "fst v < fst t")
      case True
      with Cons.prems Some p have "u = v" "rest = t # r" by simp_all
      with ih True show ?thesis by auto
    next
      case False
      with Cons.prems Some p have "u = t" "rest = ts" by simp_all
      with ih False show ?thesis by fastforce
    qed
  qed
qed

lemma rows_in_place_restyle:
  assumes "rows_in_place s" and "\<And>e. style_transform e = Lit ''translateY(0)'' \<Longrightarrow>
      style_transform (f e) = Lit ''translateY(0)''"
    and "navRows s' = navRows s" and "elems s' = fold (restyle f) rs (elems s)"
  shows "rows_in_place s'"
proof -
  have "style_transform (fold (restyle f) rs (elems s) r) = Lit ''translateY(0)''"
    if "r \<in> set (navRows s)" for r
    by (rule fold_restyle_pres [where P = "\<lambda>e. style_transform e = Lit ''translateY(0)''"])
       (use assms(1,2) that in \<open>simp_all add: rows_in_place_def\<close>)
  with assms(3,4) show ?thesis by (simp add: rows_in_place_def)
qed

lemma rows_in_place_callback:
  assumes "rows_in_place s" and "\<not> collapse_step cb" and "\<not> expand_row_step cb"
  shows "rows_in_place (run_callback cb s)"
proof (cases cb)
  case (ExpandRowStep i d T)
  with assms(3) show ?thesis by simp
next
  case (NavRowAppear row)
  with assms(1) show ?thesis by (simp add: rows_in_place_def reset_nav_row_def)
next
  case TitleRowsReset
  show ?thesis
    by (rule rows_in_place_restyle [OF assms(1), where f = reset_transform and rs = "titleRows s"])
       (simp_all add: TitleRowsReset reset_transform_def fold_upd_restyle)
next
  case (CollapseStep row h cell)
  with assms(2) show ?thesis by simp
next
  case HideContainer
  with assms(1) show ?thesis
    by (cases "dynamicNavContainer s") (simp_all add: rows_in_place_def)
next
  case ResetPositions
  have "neutral (run_callback ResetPositions s)" by (rule reset_positions_neutral)
  then show ?thesis
    unfolding ResetPositions by (simp add: neutral_def rows_in_place_def del: run_callback.simps)
qed

lemma rows_in_place_frame:
  "navRows s' = navRows s \<Longrightarrow> (\<And>r. style_transform (elems s' r) = style_transform (elems s r))
     \<Longrightarrow> rows_in_place s' = rows_in_place s"
  by (simp add: rows_in_place_def)


lemma rows_in_place_reset: "rows_in_place (run_callback ResetPositions s)"
proof -
  have "neutral (run_callback ResetPositions s)" by (rule reset_positions_neutral)
  then show ?thesis
    by (simp add: neutral_def rows_in_place_def del: run_callback.simps)
qed

lemma restores_cases: "restores cb \<longleftrightarrow> cb = HideContainer \<or> cb = ResetPositions"
  by (cases cb) simp_all

lemma settling_fire:
  assumes "settling s"
  shows "settling (fire_next s)"
proof (cases "pick (timers s)")
  case None
  then have "fire_next s = s" by (simp add: fire_next_def)
  with assms show ?thesis by simp
next
  case (Some p)
  obtain due cb rest where p: "p = ((due, cb), rest)" by (cases p) auto
  let ?s1 = "s\<lparr>timers := rest, now := max (now s) due\<rparr>"
  let ?s' = "run_callback cb ?s1"
  have f: "fire_next s = ?s'"
    using Some p by (simp add: fire_next_def del: run_callback.simps)
  from pick_set [of "timers s" "(due, cb)" rest] Some p
  have ts: "set (timers s) = insert (due, cb) (set rest)"
    and low: "\<forall>t \<in> set (timers s). due \<le> fst t"
    by simp_all
  from assms have c: "dynamicNavContainer s \<noteq> None"
    and noexp: "\<forall>t \<in> set (timers s). \<not> expand_row_step (snd t)"
    and cov: "\<forall>t \<in> set (timers s). collapse_step (snd t) \<longrightarrow>
         (\<exists>u \<in> set (timers s). fst t < fst u \<and> restores (snd u))"
    and place: "\<not> isNavExpanded s \<longrightarrow>
         rows_in_place s \<or> (\<exists>u \<in> set (timers s). restores (snd u))"
    by (simp_all add: settling_def)
  have t': "timers ?s' = rest @ (if cb = HideContainer then [(max (now s) due + 150, ResetPositions)] else [])"
    using c by (simp add: run_callback_timers del: run_callback.simps)
  have sub: "set rest \<subseteq> set (timers ?s')" by (simp add: t')
  have c': "dynamicNavContainer ?s' \<noteq> None" using c by simp
  have noexp': "\<forall>t \<in> set (timers ?s'). \<not> expand_row_step (snd t)"
    using noexp ts by (auto simp: t')
  have stay: "\<exists>u \<in> set (timers ?s'). fst t < fst u \<and> restores (snd u)"
    if t: "t \<in> set (timers s)" "collapse_step (snd t)" for t
  proof -
    from cov t obtain u where u: "u \<in> set (timers s)" "fst t < fst u" "restores (snd u)"
      by blast
    from low t(1) u(2) have "u \<noteq> (due, cb)" by auto
    with u(1) ts have "u \<in> set rest" by auto
    with sub u(2,3) show ?thesis by blast
  qed
  have cov': "\<forall>t \<in> set (timers ?s'). collapse_step (snd t) \<longrightarrow>
         (\<exists>u \<in> set (timers ?s'). fst t < fst u \<and> restores (snd u))"
  proof (intro ballI impI)
    fix t assume t: "t \<in> set (timers ?s')" "collapse_step (snd t)"
    then have "t \<in> set rest" by (auto simp: t' split: if_splits)
    with ts have "t \<in> set (timers s)" by simp
    from this t(2) show "\<exists>u \<in> set (timers ?s'). fst t < fst u \<and> restores (snd u)"
      by (rule stay)
  qed
  have place': "rows_in_place ?s' \<or> (\<exists>u \<in> set (timers ?s'). restores (snd u))"
    if ne: "\<not> isNavExpanded s"
  proof -
    have fired: "(due, cb) \<in> set (timers s)" using ts by simp
    consider (step) "collapse_step cb" | (hide) "cb = HideContainer"
      | (reset) "cb = ResetPositions"
      | (other) "\<not> collapse_step cb" "\<not> restores cb"
      by (auto simp: restores_cases)
    then show ?thesis
    proof cases
      case step
      from stay [OF fired] step show ?thesis by auto
    next
      case hide
      with t' have "(max (now s) due + 150, ResetPositions) \<in> set (timers ?s')"
        by (simp del: run_callback.simps)
      then show ?thesis by force
    next
      case reset
      then show ?thesis using rows_in_place_reset by blast
    next
      case other
      from noexp fired have ne_exp: "\<not> expand_row_step cb" by auto
      from place ne consider "rows_in_place s" | u where "u \<in> set (timers s)" "restores (snd u)"
        by blast
      then show ?thesis
      proof cases
        case 1
        then have "rows_in_place ?s1" by (simp add: rows_in_place_def)
        from rows_in_place_callback [OF this other(1) ne_exp] show ?thesis by blast
      next
        case 2
        with other(2) have "u \<noteq> (due, cb)" by auto
        with 2 ts have "u \<in> set rest" by auto
        with sub 2(2) show ?thesis by blast
      qed
    qed
  qed
  have e': "isNavExpanded ?s' = isNavExpanded s" by simp
  from c' noexp' cov' place' e' show ?thesis
    unfolding f settling_def by blast
qed

lemma collapse_new_timers:
  assumes "dynamicNavContainer st = Some c"
  shows "\<exists>new. timers (collapseNavRowsWithContentMovement st)
                 = timers st @ new @ [(now st + (real (length (navRows st)) * 100 + 500), HideContainer)]
             \<and> (\<forall>t \<in> set new. fst t < now st + (real (length (navRows st)) * 100 + 500)
                              \<and> collapse_step (snd t))"
proof -
  let ?H = "now st + (real (length (navRows st)) * 100 + 500)"
  let ?new = "map (\<lambda>(index, row).
                    (now st + max 0 ((real (length (navRows st)) - 1 - real index) * 100),
                     CollapseStep row (map (\<lambda>row. offsetHeight (elems st row)) (navRows st) ! index)
                       (next_cell st)))
               (enumerate 0 (navRows st))"
  have "fst t < ?H \<and> collapse_step (snd t)" if "t \<in> set ?new" for t
  proof -
    from that obtain index row where t: "t = (now st + max 0 ((real (length (navRows st)) - 1 - real index) * 100),
                     CollapseStep row (map (\<lambda>row. offsetHeight (elems st row)) (navRows st) ! index)
                       (next_cell st))"
      by auto
    have "max 0 ((real (length (navRows st)) - 1 - real index) * 100) < real (length (navRows st)) * 100 + 500"
      by (simp add: max_def algebra_simps)
    with t show ?thesis by simp
  qed
  moreover have "timers (collapseNavRowsWithContentMovement st) = timers st @ ?new @ [(?H, HideContainer)]"
    using collapse_timers [OF assms] by simp
  ultimately show ?thesis by blast
qed

lemma settling_toggle:
  assumes "settling s"
  shows "settling (toggleNavExpansion s)"
proof -
  from assms obtain c where c: "dynamicNavContainer s = Some c"
    by (auto simp: settling_def)
  from assms have noexp: "\<forall>t \<in> set (timers s). \<not> expand_row_step (snd t)"
    and cov: "\<forall>t \<in> set (timers s). collapse_step (snd t) \<longrightarrow>
         (\<exists>u \<in> set (timers s). fst t < fst u \<and> restores (snd u))"
    by (simp_all add: settling_def)
  show ?thesis
  proof (cases "isNavExpanded s")
    case True
    let ?H = "now s + (real (length (navRows s)) * 100 + 500)"
    from collapse_new_timers [OF c] obtain new where
      t: "timers (collapseNavRowsWithContentMovement s) = timers s @ new @ [(?H, HideContainer)]"
      and new: "\<forall>t \<in> set new. fst t < ?H \<and> collapse_step (snd t)"
      by blast
    have t': "timers (toggleNavExpansion s) = timers s @ new @ [(?H, HideContainer)]"
      using True t by (simp add: toggle_timers)
    have ns: "\<not> expand_row_step (snd t)" if "t \<in> set new" for t
      using new that by (cases "snd t") auto
    have 1: "\<forall>t \<in> set (timers (toggleNavExpansion s)). \<not> expand_row_step (snd t)"
      using noexp ns by (auto simp: t')
    have 2: "\<forall>t \<in> set (timers (toggleNavExpansion s)). collapse_step (snd t) \<longrightarrow>
         (\<exists>u \<in> set (timers (toggleNavExpansion s)). fst t < fst u \<and> restores (snd u))"
    proof (intro ballI impI)
      fix t assume t: "t \<in> set (timers (toggleNavExpansion s))" "collapse_step (snd t)"
      then consider "t \<in> set (timers s)" | "t \<in> set new"
        by (auto simp: t')
      then show "\<exists>u \<in> set (timers (toggleNavExpansion s)). fst t < fst u \<and> restores (snd u)"
      proof cases
        case 1
        with cov t(2) obtain u where "u \<in> set (timers s)" "fst t < fst u" "restores (snd u)"
          by blast
        then show ?thesis by (auto simp: t')
      next
        case 2
        with new have "fst t < ?H" by blast
        then show ?thesis by (auto simp: t')
      qed
    qed
    have 3: "\<exists>u \<in> set (timers (toggleNavExpansion s)). restores (snd u)"
      by (simp add: t')
    from c 1 2 3 show ?thesis by (simp add: settling_def)
  next
    case False
    have t': "timers (toggleNavExpansion s) =
        timers s @ map (\<lambda>(index, row). (now s + real index * 100, NavRowAppear row))
               (enumerate 0 (navRows s))
           @ [(now s + (real (length (navRows s)) * 100 + 100), TitleRowsReset)]"
      using False by (simp add: toggle_timers expandNavRows_timers [OF c])
    have 1: "\<forall>t \<in> set (timers (toggleNavExpansion s)). \<not> expand_row_step (snd t)"
      using noexp by (auto simp: t')
    have 2: "\<forall>t \<in> set (timers (toggleNavExpansion s)). collapse_step (snd t) \<longrightarrow>
         (\<exists>u \<in> set (timers (toggleNavExpansion s)). fst t < fst u \<and> restores (snd u))"
    proof (intro ballI impI)
      fix t assume t: "t \<in> set (timers (toggleNavExpansion s))" "collapse_step (snd t)"
      then have "t \<in> set (timers s)" by (auto simp: t')
      with cov t(2) obtain u where "u \<in> set (timers s)" "fst t < fst u" "restores (snd u)"
        by blast
      then show "\<exists>u \<in> set (timers (toggleNavExpansion s)). fst t < fst u \<and> restores (snd u)"
        by (auto simp: t')
    qed
    from c 1 2 False show ?thesis by (simp add: settling_def)
  qed
qed

lemma settling_scroll:
  assumes "settling s"
  shows "settling (on_scroll x s)"
proof (cases "isNavExpanded s")
  case True
  with assms show ?thesis by (simp add: settling_def)
next
  case False
  then have "rows_in_place (on_scroll x s) = rows_in_place s"
    by (simp add: on_scroll_def updateHeaders_collapsed rows_in_place_def)
  with assms show ?thesis by (simp add: settling_def)
qed

lemma settling_resize:
  assumes "settling s"
  shows "settling (on_resize w s)"
proof -
  have "rows_in_place (on_resize w s) = rows_in_place s"
    by (simp add: on_resize_def rows_in_place_def)
  with assms show ?thesis by (simp add: settling_def)
qed

lemma settling_region: "settling s \<Longrightarrow> settling (setCurrentRegion region s)"
  by (simp add: settling_def rows_in_place_def setCurrentRegion_def)

lemma settling_perform: "settling s \<Longrightarrow> settling (perform a s)"
  by (cases a)
     (simp_all add: settling_toggle settling_scroll settling_resize settling_fire settling_region)

lemma settling_activities: "settling s \<Longrightarrow> settling (fold perform acts s)"
  by (induction acts arbitrary: s) (simp_all add: settling_perform)

lemma settling_run_timers: "settling s \<Longrightarrow> settling (run_timers s)"
proof (induction s rule: run_timers.induct)
  case (1 st)
  show ?case
  proof (cases "timers st = []")
    case True
    with "1.prems" show ?thesis by (subst run_timers.simps) simp
  next
    case False
    from "1.IH" [OF False settling_fire [OF "1.prems"]] False
    show ?thesis by (subst run_timers.simps) simp
  qed
qed

lemma timers_run_timers [simp]: "timers (run_timers s) = []"
proof (induction s rule: run_timers.induct)
  case (1 st)
  then show ?case by (subst run_timers.simps) simp
qed

lemma settling_idle:
  "settling s \<Longrightarrow> \<not> isNavExpanded s \<Longrightarrow> timers s = [] \<Longrightarrow> rows_in_place s"
  by (simp add: settling_def)


lemma updateToggleButton_styles [simp]:
  "style_transform (elems (updateToggleButton st) x) = style_transform (elems st x)"
  by (simp add: updateToggleButton_def upd_elem_def split: option.splits)

lemma initializeNavRows_in_place:
  "r \<in> set (navRows (initializeNavRows st)) \<Longrightarrow>
     style_transform (elems (initializeNavRows st) r) = Lit ''translateY(0)''"
  by (auto simp: initializeNavRows_unfold nav_row_initial_style_def
        title_row_initial_style_def split: option.splits if_splits)

lemma init_in_place: "rows_in_place (init st)"
  by (simp add: rows_in_place_def init_def initializeNavRows_in_place
        del: initializeNavRows_fields)

lemma settling_constructed:
  assumes "constructor pg = Inr st" and "DynamicNavContainer \<in> page_present pg"
  shows "settling st"
proof -
  from assms(1) have "st = init ((lookups pg)\<lparr>transitionPace :=
      js_div 100 (real (offsetHeight (page_elems pg (NavRow 1))))\<rparr>)"
    by (simp add: constructor_eq split: if_splits)
  then have "rows_in_place st" by (simp add: init_in_place)
  moreover have "timers st = []" "dynamicNavContainer st \<noteq> None"
    using assms by (simp_all add: constructor_fields getElementById_def)
  ultimately show ?thesis by (simp add: settling_def)
qed

subsection \<open>From a collapse to its reset\<close>

lemma neutral_callback:
  assumes "neutral s" and "\<not> collapse_step cb" and "\<not> expand_row_step cb"
  shows "neutral (run_callback cb s)"
proof (cases cb)
  case (ExpandRowStep i d T)
  with assms(3) show ?thesis by simp
next
  case (NavRowAppear row)
  with assms(1) show ?thesis by (simp add: neutral_def reset_nav_row_def)
next
  case TitleRowsReset
  let ?E = "fold (restyle reset_transform) (titleRows s) (elems s)"
  let ?T = "\<lambda>e. style_transform e = Lit ''translateY(0)''"
  let ?N = "\<lambda>e. style_transform e = Lit ''translateY(0)'' \<and> style_opacity e = Lit ''1''"
  have e: "elems (run_callback TitleRowsReset s) = ?E" by (simp add: fold_upd_restyle)
  have n: "?N (?E r)" if "r \<in> set (navRows s)" for r
    by (rule fold_restyle_pres [where P = ?N])
       (use assms(1) that in \<open>simp_all add: neutral_def reset_transform_def\<close>)
  have t: "?T (?E r)" if "r \<in> set (titleRows s)" for r
    by (rule fold_restyle_estab [where P = ?T]) (simp_all add: reset_transform_def that)
  have c: "?T (?E content)" if "contentScroll s = Some content" for content
    by (rule fold_restyle_pres [where P = ?T])
       (use assms(1) that in \<open>simp_all add: neutral_def reset_transform_def\<close>)
  from n t c show ?thesis
    unfolding TitleRowsReset by (simp add: neutral_def e del: run_callback.simps)
next
  case (CollapseStep row h cell)
  with assms(2) show ?thesis by simp
next
  case HideContainer
  with assms(1) show ?thesis
    by (cases "dynamicNavContainer s") (simp_all add: neutral_def)
next
  case ResetPositions
  show ?thesis unfolding ResetPositions by (rule reset_positions_neutral)
qed

lemma fold_restyle_maxHeight:
  assumes "\<And>e. style_maxHeight (f e) = style_maxHeight e"
  shows "style_maxHeight (fold (restyle f) rs E x) = style_maxHeight (E x)"
  by (rule fold_restyle_pres [where P = "\<lambda>e. style_maxHeight e = style_maxHeight (E x)"])
     (simp_all add: assms)

lemma fold_restyle_transform_maxHeight [simp]:
  "style_maxHeight (fold (restyle (style_transform_update g)) rs E y) = style_maxHeight (E y)"
  by (rule fold_restyle_maxHeight) simp

lemma maxHeight_callback:
  assumes "cb \<noteq> HideContainer"
  shows "style_maxHeight (elems (run_callback cb s) x) = style_maxHeight (elems s x)"
proof (cases cb)
  case (ExpandRowStep i d T)
  then show ?thesis by (simp split: option.splits)
next
  case (NavRowAppear row)
  then show ?thesis by (simp add: reset_nav_row_def)
next
  case TitleRowsReset
  then show ?thesis
    by (simp add: fold_upd_restyle fold_restyle_maxHeight reset_transform_def)
next
  case (CollapseStep row h cell)
  show ?thesis
    unfolding CollapseStep
    by (cases "contentScroll s") (simp_all add: Let_def fold_upd_restyle)
next
  case HideContainer
  with assms show ?thesis by simp
next
  case ResetPositions
  show ?thesis unfolding ResetPositions by (rule reset_positions_maxHeight)
qed

lemma restoring_fire:
  assumes "restoring c s"
  shows "restoring c (fire_next s)"
proof (cases "pick (timers s)")
  case None
  then have "fire_next s = s" by (simp add: fire_next_def)
  with assms show ?thesis by simp
next
  case (Some p)
  obtain due cb rest where p: "p = ((due, cb), rest)" by (cases p) auto
  let ?s1 = "s\<lparr>timers := rest, now := max (now s) due\<rparr>"
  let ?s' = "run_callback cb ?s1"
  have f: "fire_next s = ?s'"
    using Some p by (simp add: fire_next_def del: run_callback.simps)
  from pick_set [of "timers s" "(due, cb)" rest] Some p
  have ts: "set (timers s) = insert (due, cb) (set rest)"
    and low: "\<forall>t \<in> set (timers s). due \<le> fst t"
    by simp_all
  from assms have c: "dynamicNavContainer s = Some c"
    and noexp: "\<forall>t \<in> set (timers s). \<not> expand_row_step (snd t)"
    and cov: "\<forall>t \<in> set (timers s). collapse_step (snd t) \<longrightarrow>
         (\<exists>u \<in> set (timers s). fst t < fst u \<and> restores (snd u))"
    and rest4: "(\<exists>u \<in> set (timers s). restores (snd u))
        \<or> (neutral s \<and> style_maxHeight (elems s c) = Lit ''0'')"
    and rest5: "(\<exists>u \<in> set (timers s). snd u = HideContainer)
        \<or> style_maxHeight (elems s c) = Lit ''0''"
    by (simp_all add: restoring_def)
  have t': "timers ?s' = rest @ (if cb = HideContainer then [(max (now s) due + 150, ResetPositions)] else [])"
    using c by (simp add: run_callback_timers del: run_callback.simps)
  have sub: "set rest \<subseteq> set (timers ?s')" by (simp add: t')
  have fired: "(due, cb) \<in> set (timers s)" using ts by simp
  from noexp fired have ne_exp: "\<not> expand_row_step cb" by auto
  have c': "dynamicNavContainer ?s' = Some c" using c by simp
  have noexp': "\<forall>t \<in> set (timers ?s'). \<not> expand_row_step (snd t)"
    using noexp ts by (auto simp: t')
  have stay: "\<exists>u \<in> set (timers ?s'). fst t < fst u \<and> restores (snd u)"
    if t: "t \<in> set (timers s)" "collapse_step (snd t)" for t
  proof -
    from cov t obtain u where u: "u \<in> set (timers s)" "fst t < fst u" "restores (snd u)"
      by blast
    from low t(1) u(2) have "u \<noteq> (due, cb)" by auto
    with u(1) ts have "u \<in> set rest" by auto
    with sub u(2,3) show ?thesis by blast
  qed
  have cov': "\<forall>t \<in> set (timers ?s'). collapse_step (snd t) \<longrightarrow>
         (\<exists>u \<in> set (timers ?s'). fst t < fst u \<and> restores (snd u))"
  proof (intro ballI impI)
    fix t assume t: "t \<in> set (timers ?s')" "collapse_step (snd t)"
    then have "t \<in> set rest" by (auto simp: t' split: if_splits)
    with ts have "t \<in> set (timers s)" by simp
    from this t(2) show "\<exists>u \<in> set (timers ?s'). fst t < fst u \<and> restores (snd u)"
      by (rule stay)
  qed
  have m_keep: "style_maxHeight (elems ?s' c) = style_maxHeight (elems s c)"
    if "cb \<noteq> HideContainer"
    using maxHeight_callback [OF that, of ?s1 c] by simp
  have rest5': "(\<exists>u \<in> set (timers ?s'). snd u = HideContainer)
        \<or> style_maxHeight (elems ?s' c) = Lit ''0''"
  proof (cases "cb = HideContainer")
    case True
    then show ?thesis using c by simp
  next
    case False
    from rest5 show ?thesis
    proof
      assume "\<exists>u \<in> set (timers s). snd u = HideContainer"
      then obtain u where u: "u \<in> set (timers s)" "snd u = HideContainer" by blast
      with False have "u \<noteq> (due, cb)" by auto
      with u(1) ts have "u \<in> set rest" by auto
      with sub u(2) show ?thesis by blast
    next
      assume "style_maxHeight (elems s c) = Lit ''0''"
      with m_keep [OF False] show ?thesis by simp
    qed
  qed
  have rest4': "(\<exists>u \<in> set (timers ?s'). restores (snd u))
        \<or> (neutral ?s' \<and> style_maxHeight (elems ?s' c) = Lit ''0'')"
  proof -
    consider (step) "collapse_step cb" | (hide) "cb = HideContainer"
      | (reset) "cb = ResetPositions"
      | (other) "\<not> collapse_step cb" "\<not> restores cb"
      by (auto simp: restores_cases)
    then show ?thesis
    proof cases
      case step
      from stay [OF fired] step show ?thesis by auto
    next
      case hide
      with t' have "(max (now s) due + 150, ResetPositions) \<in> set (timers ?s')"
        by (simp del: run_callback.simps)
      then show ?thesis by force
    next
      case reset
      have neu: "neutral ?s'" unfolding reset by (rule reset_positions_neutral)
      show ?thesis
      proof (cases "\<exists>u \<in> set (timers ?s'). restores (snd u)")
        case True
        then show ?thesis by blast
      next
        case False
        then have "\<not> (\<exists>u \<in> set (timers ?s'). snd u = HideContainer)" by auto
        with rest5' have "style_maxHeight (elems ?s' c) = Lit ''0''" by blast
        with neu show ?thesis by blast
      qed
    next
      case other
      then have nh: "cb \<noteq> HideContainer" by auto
      from rest4 show ?thesis
      proof
        assume "\<exists>u \<in> set (timers s). restores (snd u)"
        then obtain u where u: "u \<in> set (timers s)" "restores (snd u)" by blast
        with other(2) have "u \<noteq> (due, cb)" by auto
        with u(1) ts have "u \<in> set rest" by auto
        with sub u(2) show ?thesis by blast
      next
        assume a: "neutral s \<and> style_maxHeight (elems s c) = Lit ''0''"
        then have "neutral ?s1" by (simp add: neutral_def)
        from neutral_callback [OF this other(1) ne_exp] a m_keep [OF nh]
        show ?thesis by simp
      qed
    qed
  qed
  from c' noexp' cov' rest4' rest5' show ?thesis
    unfolding f restoring_def by blast
qed

lemma restoring_run_timers: "restoring c s \<Longrightarrow> restoring c (run_timers s)"
proof (induction s rule: run_timers.induct)
  case (1 st)
  show ?case
  proof (cases "timers st = []")
    case True
    with "1.prems" show ?thesis by (subst run_timers.simps) simp
  next
    case False
    from "1.IH" [OF False restoring_fire [OF "1.prems"]] False
    show ?thesis by (subst run_timers.simps) simp
  qed
qed

lemma restoring_idle:
  "restoring c s \<Longrightarrow> timers s = [] \<Longrightarrow> neutral s \<and> style_maxHeight (elems s c) = Lit ''0''"
  by (simp add: restoring_def)

lemma settling_collapse:
  assumes "settling s" and c: "dynamicNavContainer s = Some c"
  shows "restoring c (collapseNavRowsWithContentMovement s)"
proof -
  let ?s' = "collapseNavRowsWithContentMovement s"
  let ?H = "now s + (real (length (navRows s)) * 100 + 500)"
  from assms have noexp: "\<forall>t \<in> set (timers s). \<not> expand_row_step (snd t)"
    and cov: "\<forall>t \<in> set (timers s). collapse_step (snd t) \<longrightarrow>
         (\<exists>u \<in> set (timers s). fst t < fst u \<and> restores (snd u))"
    by (simp_all add: settling_def)
  from collapse_new_timers [OF c] obtain new where
    t: "timers ?s' = timers s @ new @ [(?H, HideContainer)]"
    and new: "\<forall>t \<in> set new. fst t < ?H \<and> collapse_step (snd t)"
    by blast
  have ns: "\<not> expand_row_step (snd t)" if "t \<in> set new" for t
    using new that by (cases "snd t") auto
  have 1: "\<forall>t \<in> set (timers ?s'). \<not> expand_row_step (snd t)"
    using noexp ns by (auto simp: t)
  have 2: "\<forall>t \<in> set (timers ?s'). collapse_step (snd t) \<longrightarrow>
         (\<exists>u \<in> set (timers ?s'). fst t < fst u \<and> restores (snd u))"
  proof (intro ballI impI)
    fix x assume x: "x \<in> set (timers ?s')" "collapse_step (snd x)"
    then consider "x \<in> set (timers s)" | "x \<in> set new"
      by (auto simp: t)
    then show "\<exists>u \<in> set (timers ?s'). fst x < fst u \<and> restores (snd u)"
    proof cases
      case 1
      with cov x(2) obtain u where "u \<in> set (timers s)" "fst x < fst u" "restores (snd u)"
        by blast
      then show ?thesis by (auto simp: t)
    next
      case 2
      with new have "fst x < ?H" by blast
      then show ?thesis by (auto simp: t)
    qed
  qed
  have 3: "\<exists>u \<in> set (timers ?s'). snd u = HideContainer"
    by (simp add: t)
  then have 4: "\<exists>u \<in> set (timers ?s'). restores (snd u)"
    by (auto simp: t)
  from c 1 2 3 4 show ?thesis by (simp add: restoring_def)
qed


lemma activities_fields [simp]:
  "titleRows (fold perform acts st) = titleRows st"
  "contentScroll (fold perform acts st) = contentScroll st"
  "dynamicNavContainer (fold perform acts st) = dynamicNavContainer st"
  by (induction acts arbitrary: st) simp_all

lemma collapse_registers_no_reset:
  assumes "dynamicNavContainer s = Some c"
  shows "\<exists>new. timers (collapseNavRowsWithContentMovement s) = timers s @ new
           \<and> ResetPositions \<notin> snd ` set new"
proof -
  from collapse_new_timers [OF assms] obtain new where
    t: "timers (collapseNavRowsWithContentMovement s) =
          timers s @ new @ [(now s + (real (length (navRows s)) * 100 + 500), HideContainer)]"
    and new: "\<forall>t \<in> set new. collapse_step (snd t)"
    by blast
  have "ResetPositions \<notin> snd ` set (new @ [(now s + (real (length (navRows s)) * 100 + 500), HideContainer)])"
    using new by auto
  with t show ?thesis by blast
qed

subsection \<open>Missing elements, folded rows\<close>

lemma container_missing_noop:
  "dynamicNavContainer s = None \<Longrightarrow>
     expandNavRows s = s \<and> collapseNavRowsWithContentMovement s = s"
  by (simp add: expandNavRows_def collapseNavRowsWithContentMovement_def)

lemma button_missing_noop:
  "ToggleButton \<notin> present s \<Longrightarrow> updateButtonPosition s = s"
  by (simp add: updateButtonPosition_def getElementById_def)

lemma toggle_missing_noop:
  "navToggle s = None \<Longrightarrow> updateToggleButton s = s"
  by (simp add: updateToggleButton_def)

text \<open>
  Construction with elements missing: it completes if and only if \<^verbatim>\<open>nav-row-1\<close> is
  on the page, and then the collections hold what was found and the features that
  depend on a missing element do nothing.
\<close>

lemma construction_with_missing_elements:
  "(NavRow 1 \<in> page_present pg \<longrightarrow>
      (\<exists>st. constructor pg = Inr st
         \<and> navRows st = resolved (page_present pg) [NavRow 1, NavRow 2]
         \<and> titleRows st = resolved (page_present pg) [TitleRow1, TitleRow2]
         \<and> displayedRowRegistry st =
             map Some (NavRow 1 # resolved (page_present pg) [TitleRow1, TitleRow2])
         \<and> clickListener st = (NavToggle \<in> page_present pg)
         \<and> scrollListener st = (ContentScroll \<in> page_present pg)
         \<and> (DynamicNavContainer \<notin> page_present pg \<longrightarrow>
               expandNavRows st = st \<and> collapseNavRowsWithContentMovement st = st)
         \<and> (ToggleButton \<notin> page_present pg \<longrightarrow> updateButtonPosition st = st)
         \<and> (NavToggle \<notin> page_present pg \<longrightarrow> updateToggleButton st = st)))
   \<and> (NavRow 1 \<notin> page_present pg \<longrightarrow> constructor pg = Inl TypeError)"
proof (cases "NavRow 1 \<in> page_present pg")
  case True
  then obtain st where st: "constructor pg = Inr st"
    by (simp add: constructor_eq)
  note f = constructor_fields [OF st]
  have c: "DynamicNavContainer \<notin> page_present pg \<Longrightarrow>
           expandNavRows st = st \<and> collapseNavRowsWithContentMovement st = st"
    by (rule container_missing_noop) (simp add: f getElementById_def)
  have b: "ToggleButton \<notin> page_present pg \<Longrightarrow> updateButtonPosition st = st"
    by (rule button_missing_noop) (simp add: f)
  have t: "NavToggle \<notin> page_present pg \<Longrightarrow> updateToggleButton st = st"
    by (rule toggle_missing_noop) (simp add: f getElementById_def)
  from True st f(1,2,3,13,14) c b t show ?thesis by blast
next
  case False
  then show ?thesis by (simp add: constructor_eq)
qed

lemma isRowFolded_nth:
  assumes "displayedRowRegistry st = map Some rs" and "distinct rs" and "k < length rs"
  shows "isRowFolded (rs ! k) st =
           Inr (0 < k \<and> rect_top (elems st (rs ! k)) < rect_bottom (elems st (rs ! (k - 1))))"
proof (cases k)
  case 0
  with assms show ?thesis by (simp add: isRowFolded_def js_at_def)
next
  case (Suc j)
  have "0 < length rs" using assms(3) by auto
  from nth_eq_iff_index_eq [OF assms(2) assms(3) this] Suc
  have ne: "rs ! k \<noteq> rs ! 0" by simp
  have idx: "indexOf (map Some rs) (Some (rs ! k)) = int k"
    by (rule registry_index [OF assms(2,3)])
  from assms Suc ne show ?thesis
    by (simp add: isRowFolded_def idx [simplified Suc] js_at_def Let_def)
qed

lemma expandRow_nth:
  assumes reg: "displayedRowRegistry st = map Some rs" and d: "distinct rs"
    and k: "k < length rs" "0 < k"
    and folded: "rect_top (elems st (rs ! k)) < rect_bottom (elems st (rs ! (k - 1)))"
  shows "expandRow (rs ! k) baseTime st =
           Inr (js_mul (transitionPace st)
                  (rect_top (elems st (rs ! k)) - rect_bottom (elems st (rs ! (k - 1)))),
                st\<lparr>timers := timers st @
                  map (\<lambda>i. (now st + max 0 (delay_of baseTime),
                            ExpandRowStep i
                              (rect_top (elems st (rs ! k)) - rect_bottom (elems st (rs ! (k - 1))))
                              (js_mul (transitionPace st)
                                (rect_top (elems st (rs ! k))
                                 - rect_bottom (elems st (rs ! (k - 1)))))))
                    [int k .. int (length rs) - 1]\<rparr>)"
proof -
  have f: "isRowFolded (rs ! k) st = Inr True"
    using isRowFolded_nth [OF reg d k(1)] k(2) folded by simp
  have idx: "indexOf (map Some rs) (Some (rs ! k)) = int k"
    by (rule registry_index [OF d k(1)])
  have prev: "js_at (map Some rs) (int k - 1) = Some (rs ! (k - 1))"
    using k by (simp add: js_at_def nat_diff_distrib')
  show ?thesis
    by (simp add: expandRow_def f reg idx prev Let_def fold_setTimeout)
qed

lemma expandRowStep_writes:
  assumes "displayedRowRegistry s = map Some rs" and "i < length rs"
  shows "elems (run_callback (ExpandRowStep (int i) distance scheduleTime) s) (rs ! i) =
           assign_transition_ms scheduleTime (assign_transform_minus_px distance (elems s (rs ! i)))"
  using assms by (simp add: js_at_def upd_elem_def)

lemma expandRowStep_dropped:
  assumes "distance < 0" and "t < 0"
  shows "run_callback (ExpandRowStep i distance (Fin t)) s = s"
  using assms
  by (auto simp: upd_elem_def assign_transform_minus_px_def split: option.splits)

section \<open>The claims\<close>

text \<open>
  C1. On the page whose first title row is drawn from 20 under a \<^verbatim>\<open>nav-row-1\<close>
  that ends at 40, the title row is folded. The claim gives the distance
  \<open>40 - 20 = 20\<close> and the duration \<open>20 * 2.5 = 50\<close>; \<^verbatim>\<open>expandRow\<close> computes the
  distance \<open>20 - 40 = -20\<close>, registers the callbacks of the two title rows with it, and
  returns \<open>-50\<close>. When the two callbacks have fired no row has moved: the texts
  \<^verbatim>\<open>translateY(--20px)\<close> and \<^verbatim>\<open>transform -50ms ease-out\<close> are not values of
  their properties. (All the numbers involved are represented exactly as JavaScript numbers.)
\<close>

theorem expandRow_negative_distance:
  "constructor folded_page = Inr folded_state
   \<and> rect_top (elems folded_state TitleRow1) = 20
   \<and> rect_bottom (elems folded_state (NavRow 1)) = 40
   \<and> transitionPace folded_state = Fin (5 / 2)
   \<and> isRowFolded TitleRow1 folded_state = Inr True
   \<and> expandRow TitleRow1 (Fin 0) folded_state =
       Inr (Fin (- 50),
            folded_state\<lparr>timers := [(0, ExpandRowStep 1 (- 20) (Fin (- 50))),
                                    (0, ExpandRowStep 2 (- 20) (Fin (- 50)))]\<rparr>)
   \<and> timers (fold perform [TimerFires, TimerFires]
        (folded_state\<lparr>timers := [(0, ExpandRowStep 1 (- 20) (Fin (- 50))),
                                 (0, ExpandRowStep 2 (- 20) (Fin (- 50)))]\<rparr>)) = []
   \<and> elems (fold perform [TimerFires, TimerFires]
        (folded_state\<lparr>timers := [(0, ExpandRowStep 1 (- 20) (Fin (- 50))),
                                 (0, ExpandRowStep 2 (- 20) (Fin (- 50)))]\<rparr>)) = elems folded_state"
proof -
  have reg: "displayedRowRegistry folded_state = map Some [NavRow 1, TitleRow1, TitleRow2]"
    by (simp add: folded_fields)
  have g: "rect_top (elems folded_state TitleRow1) = 20"
      "rect_bottom (elems folded_state (NavRow 1)) = 40"
      "transitionPace folded_state = Fin (5 / 2)"
    by (simp_all add: folded_fields js_div_def box_def blank_def)
  have f: "isRowFolded TitleRow1 folded_state = Inr True"
    using isRowFolded_nth [OF reg, of 1] by (simp add: folded_fields box_def blank_def)
  have e: "expandRow TitleRow1 (Fin 0) folded_state =
       Inr (Fin (- 50),
            folded_state\<lparr>timers := [(0, ExpandRowStep 1 (- 20) (Fin (- 50))),
                                    (0, ExpandRowStep 2 (- 20) (Fin (- 50)))]\<rparr>)"
    using expandRow_nth [OF reg, of 1 "Fin 0"]
    by (simp add: folded_fields js_div_def box_def blank_def upto_rec1)
  let ?s = "folded_state\<lparr>timers := [(0, ExpandRowStep 1 (- 20) (Fin (- 50))),
                                   (0, ExpandRowStep 2 (- 20) (Fin (- 50)))]\<rparr>"
  have t: "timers (fold perform [TimerFires, TimerFires] ?s) = []"
    by (simp add: fire_next_timers fire_next_now)
  have d: "run_callback (ExpandRowStep i (- 20) (Fin (- 50))) s = s" for i s
    by (rule expandRowStep_dropped) simp_all
  have el: "elems (fold perform [TimerFires, TimerFires] ?s) = elems folded_state"
    by (simp add: fire_next_def d del: run_callback.simps)
  from folded_constructed g f e t el show ?thesis by blast
qed

text \<open>
  C2. The claim holds for every element but one: on a page that has everything except
  \<^verbatim>\<open>nav-row-1\<close> the constructor does not complete, it throws a \<^verbatim>\<open>TypeError\<close>
  when it reads the height of the row. (With \<^verbatim>\<open>nav-row-1\<close> on the page construction
  completes whatever else is missing, as \<open>construction_with_missing_elements\<close> shows.)
\<close>

theorem construction_without_nav_row_1:
  "NavRow 1 \<notin> page_present headless_page
   \<and> page_present headless_page =
       {ContentScroll, NavRow 2, NavToggle, DynamicNavContainer,
        TitleRow1, TitleRow2, ToggleButton, NavToggleSvg, NavToggleSpan}
   \<and> constructor headless_page = Inl TypeError"
  by (auto simp: headless_page_def demo_page_def constructor_eq)

text \<open>
  C3. While the navigation is expanded and the scroll position \<open>s\<close> is above the
  threshold (\<open>s - 10 > 0\<close>), \<^verbatim>\<open>updateHeaders\<close> leaves on nav row \<open>i\<close> the
  translation \<open>- min (max 0 ((s - 10) - (h\<^sub>0 + \<dots> + h\<^sub>i\<^sub>-\<^sub>1))) h\<^sub>i\<close>, where the
  \<open>h\<close> are the heights of the nav rows, which are distinct elements. With two rows
  of 40 and 60 pixels and \<open>s = 70\<close> the translations are \<open>-40\<close> and \<open>-20\<close>.
\<close>

theorem scroll_translation:
  assumes "isNavExpanded st" and "distinct (navRows st)" and "s - 10 > 0"
  shows "\<forall>i < length (navRows st).
           translation_px (style_transform (elems (updateHeaders s st) (navRows st ! i)))
             = Some (- min (max 0 ((s - 10)
                        - real (sum_list (map (\<lambda>r. offsetHeight (elems st r)) (take i (navRows st))))))
                      (real (offsetHeight (elems st (navRows st ! i)))))"
proof (intro allI impI)
  fix i
  assume i: "i < length (navRows st)"
  let ?hs = "headerInfo (elems st) (navRows st) 0"
  have el: "elems (updateHeaders s st) = fold (put_header (s - 10)) ?hs (elems st)"
    using assms(1,3) by (simp add: updateHeaders_def Let_def fold_move_header_put)
  have d: "distinct (map element ?hs)" and l: "i < length ?hs"
    using assms(2) i by simp_all
  from headerInfo_nth [OF i, of "elems st" 0]
  have nth: "element (?hs ! i) = navRows st ! i"
    "height (?hs ! i) = offsetHeight (elems st (navRows st ! i))"
    "startPosition (?hs ! i) = sum_list (map (\<lambda>r. offsetHeight (elems st r)) (take i (navRows st)))"
    by simp_all
  from fold_put_header_nth [OF d l, of "s - 10" "elems st"]
  have "style_transform (elems (updateHeaders s st) (navRows st ! i)) = header_transform (s - 10) (?hs ! i)"
    by (simp add: el nth)
  then show "translation_px (style_transform (elems (updateHeaders s st) (navRows st ! i)))
             = Some (- min (max 0 ((s - 10)
                        - real (sum_list (map (\<lambda>r. offsetHeight (elems st r)) (take i (navRows st))))))
                      (real (offsetHeight (elems st (navRows st ! i)))))"
    by (simp add: translation_header_transform nth)
qed

theorem scroll_translation_witness:
  "isNavExpanded (toggleNavExpansion demo_state)
   \<and> distinct (navRows (toggleNavExpansion demo_state))
   \<and> navRows (toggleNavExpansion demo_state) = [NavRow 1, NavRow 2]
   \<and> offsetHeight (elems (toggleNavExpansion demo_state) (NavRow 1)) = 40
   \<and> offsetHeight (elems (toggleNavExpansion demo_state) (NavRow 2)) = 60
   \<and> translation_px (style_transform
        (elems (updateHeaders 70 (toggleNavExpansion demo_state)) (NavRow 1))) = Some (- 40)
   \<and> translation_px (style_transform
        (elems (updateHeaders 70 (toggleNavExpansion demo_state)) (NavRow 2))) = Some (- 20)"
  using scroll_translation [of "toggleNavExpansion demo_state" 70, THEN spec, of 0]
    scroll_translation [of "toggleNavExpansion demo_state" 70, THEN spec, of 1]
  by (simp add: demo_fields constructor_collapsed [OF demo_constructed] box_def blank_def)

text \<open>
  C4. On a page that has the container, let \<^verbatim>\<open>collapseNavRowsWithContentMovement\<close>
  be called after any sequence of toggles, scrolls, resizes and firing timers since
  construction, and let the pending timers fire until none is left, with no toggle in
  between. Then each nav row has the transform \<^verbatim>\<open>translateY(0)\<close> and opacity 1,
  each title row and the content element have the transform \<^verbatim>\<open>translateY(0)\<close>,
  and the container has the maximal height 0. The call itself registers no reset: the
  reset is registered by the callback that sets the height of the container to 0,
  after it has set it, with a delay of 150.
\<close>

theorem collapse_ends_neutral:
  assumes "constructor pg = Inr st" and "DynamicNavContainer \<in> page_present pg"
  shows "(\<forall>acts.
            timers (run_timers (collapseNavRowsWithContentMovement (fold perform acts st))) = []
          \<and> (\<forall>r \<in> set (navRows st).
                style_transform (elems (run_timers (collapseNavRowsWithContentMovement
                  (fold perform acts st))) r) = Lit ''translateY(0)''
              \<and> style_opacity (elems (run_timers (collapseNavRowsWithContentMovement
                  (fold perform acts st))) r) = Lit ''1'')
          \<and> (\<forall>r \<in> set (titleRows st).
                style_transform (elems (run_timers (collapseNavRowsWithContentMovement
                  (fold perform acts st))) r) = Lit ''translateY(0)'')
          \<and> (\<forall>content. contentScroll st = Some content \<longrightarrow>
                style_transform (elems (run_timers (collapseNavRowsWithContentMovement
                  (fold perform acts st))) content) = Lit ''translateY(0)'')
          \<and> style_maxHeight (elems (run_timers (collapseNavRowsWithContentMovement
                (fold perform acts st))) DynamicNavContainer) = Lit ''0'')
       \<and> (\<forall>acts. \<exists>new.
             timers (collapseNavRowsWithContentMovement (fold perform acts st))
               = timers (fold perform acts st) @ new
           \<and> ResetPositions \<notin> snd ` set new)
       \<and> (\<forall>s. dynamicNavContainer s = Some DynamicNavContainer \<longrightarrow>
             style_maxHeight (elems (run_callback HideContainer s) DynamicNavContainer) = Lit ''0''
           \<and> timers (run_callback HideContainer s) = timers s @ [(now s + 150, ResetPositions)])"
proof -
  have c0: "dynamicNavContainer st = Some DynamicNavContainer"
    using assms by (simp add: constructor_fields getElementById_def)
  have s0: "settling st" by (rule settling_constructed [OF assms])
  have fin: "neutral (run_timers (collapseNavRowsWithContentMovement (fold perform acts st)))
      \<and> style_maxHeight (elems (run_timers (collapseNavRowsWithContentMovement
                (fold perform acts st))) DynamicNavContainer) = Lit ''0''" for acts
  proof -
    let ?s = "fold perform acts st"
    have "settling ?s" by (rule settling_activities [OF s0])
    moreover have "dynamicNavContainer ?s = Some DynamicNavContainer" using c0 by simp
    ultimately have "restoring DynamicNavContainer (collapseNavRowsWithContentMovement ?s)"
      by (rule settling_collapse)
    then have "restoring DynamicNavContainer (run_timers (collapseNavRowsWithContentMovement ?s))"
      by (rule restoring_run_timers)
    then show ?thesis by (rule restoring_idle) simp
  qed
  have a: "timers (run_timers (collapseNavRowsWithContentMovement (fold perform acts st))) = []
          \<and> (\<forall>r \<in> set (navRows st).
                style_transform (elems (run_timers (collapseNavRowsWithContentMovement
                  (fold perform acts st))) r) = Lit ''translateY(0)''
              \<and> style_opacity (elems (run_timers (collapseNavRowsWithContentMovement
                  (fold perform acts st))) r) = Lit ''1'')
          \<and> (\<forall>r \<in> set (titleRows st).
                style_transform (elems (run_timers (collapseNavRowsWithContentMovement
                  (fold perform acts st))) r) = Lit ''translateY(0)'')
          \<and> (\<forall>content. contentScroll st = Some content \<longrightarrow>
                style_transform (elems (run_timers (collapseNavRowsWithContentMovement
                  (fold perform acts st))) content) = Lit ''translateY(0)'')
          \<and> style_maxHeight (elems (run_timers (collapseNavRowsWithContentMovement
                (fold perform acts st))) DynamicNavContainer) = Lit ''0''" for acts
    using fin [of acts] by (simp add: neutral_def)
  have b: "\<exists>new. timers (collapseNavRowsWithContentMovement (fold perform acts st))
               = timers (fold perform acts st) @ new
           \<and> ResetPositions \<notin> snd ` set new" for acts
    by (rule collapse_registers_no_reset [where c = DynamicNavContainer]) (simp add: c0)
  have c: "style_maxHeight (elems (run_callback HideContainer s) DynamicNavContainer) = Lit ''0''
           \<and> timers (run_callback HideContainer s) = timers s @ [(now s + 150, ResetPositions)]"
    if "dynamicNavContainer s = Some DynamicNavContainer" for s
    using that by simp
  from a b c show ?thesis by blast
qed

theorem collapse_ends_neutral_witness:
  "constructor demo_page = Inr demo_state
   \<and> DynamicNavContainer \<in> page_present demo_page
   \<and> navRows demo_state = [NavRow 1, NavRow 2]
   \<and> titleRows demo_state = [TitleRow1, TitleRow2]
   \<and> contentScroll demo_state = Some ContentScroll
   \<and> timers (run_timers (collapseNavRowsWithContentMovement
        (fold perform [Toggle, ScrollTo 70] demo_state))) = []
   \<and> style_transform (elems (run_timers (collapseNavRowsWithContentMovement
        (fold perform [Toggle, ScrollTo 70] demo_state))) (NavRow 1)) = Lit ''translateY(0)''
   \<and> style_opacity (elems (run_timers (collapseNavRowsWithContentMovement
        (fold perform [Toggle, ScrollTo 70] demo_state))) (NavRow 1)) = Lit ''1''
   \<and> style_transform (elems (run_timers (collapseNavRowsWithContentMovement
        (fold perform [Toggle, ScrollTo 70] demo_state))) (NavRow 2)) = Lit ''translateY(0)''
   \<and> style_opacity (elems (run_timers (collapseNavRowsWithContentMovement
        (fold perform [Toggle, ScrollTo 70] demo_state))) (NavRow 2)) = Lit ''1''
   \<and> style_transform (elems (run_timers (collapseNavRowsWithContentMovement
        (fold perform [Toggle, ScrollTo 70] demo_state))) TitleRow1) = Lit ''translateY(0)''
   \<and> style_transform (elems (run_timers (collapseNavRowsWithContentMovement
        (fold perform [Toggle, ScrollTo 70] demo_state))) TitleRow2) = Lit ''translateY(0)''
   \<and> style_transform (elems (run_timers (collapseNavRowsWithContentMovement
        (fold perform [Toggle, ScrollTo 70] demo_state))) ContentScroll) = Lit ''translateY(0)''
   \<and> style_maxHeight (elems (run_timers (collapseNavRowsWithContentMovement
        (fold perform [Toggle, ScrollTo 70] demo_state))) DynamicNavContainer) = Lit ''0''"
proof -
  have h2: "DynamicNavContainer \<in> page_present demo_page"
    by (simp add: demo_page_def)
  have f: "navRows demo_state = [NavRow 1, NavRow 2]" "titleRows demo_state = [TitleRow1, TitleRow2]"
    "contentScroll demo_state = Some ContentScroll"
    by (simp_all add: demo_fields)
  have m: "NavRow 1 \<in> set (navRows demo_state)" "NavRow 2 \<in> set (navRows demo_state)"
    "TitleRow1 \<in> set (titleRows demo_state)" "TitleRow2 \<in> set (titleRows demo_state)"
    by (simp_all add: demo_fields)
  from collapse_ends_neutral [OF demo_constructed h2] demo_constructed h2 f m
  show ?thesis by blast
qed

text \<open>
  C5. From the state the constructor returns, in which the navigation is collapsed,
  \<open>N\<close> calls of \<^verbatim>\<open>toggleNavExpansion\<close> leave \<^verbatim>\<open>getNavExpandedState()\<close> true
  exactly when \<open>N\<close> is odd. The same holds when scrolls, resizes and firing timers
  come between the toggles: only the toggles among the activities count.
\<close>

theorem toggle_parity:
  assumes "constructor pg = Inr st"
  shows "getNavExpandedState ((toggleNavExpansion ^^ N) st) = odd N
       \<and> getNavExpandedState (fold perform acts st)
           = odd (length (filter (\<lambda>a. a = Toggle) acts))"
proof -
  have "isNavExpanded ((toggleNavExpansion ^^ N) s) = (isNavExpanded s \<noteq> odd N)" for s
    by (induction N) auto
  with assms show ?thesis
    by (simp add: getNavExpandedState_def toggles_among_activities constructor_collapsed)
qed

theorem toggle_parity_witness:
  "constructor demo_page = Inr demo_state
   \<and> getNavExpandedState ((toggleNavExpansion ^^ 3) demo_state) = True
   \<and> getNavExpandedState
       (fold perform [Toggle, ScrollTo 70, TimerFires, Toggle, ResizeTo 500] demo_state) = False"
  using toggle_parity [OF demo_constructed, of 3 "[Toggle, ScrollTo 70, TimerFires, Toggle, ResizeTo 500]"]
    demo_constructed
  by simp

text \<open>
  C6, as it is stated, fails on a page without \<^verbatim>\<open>dynamic-nav-container\<close>: there
  neither the expansion nor the collapse registers a callback, while the scroll handler
  moves the rows as on any page. After a toggle, a scroll to 70 and a second toggle the
  navigation is collapsed and no timer is pending, and the two nav rows are still
  translated by \<open>-40\<close> and \<open>-20\<close> pixels.
\<close>

theorem scroll_mirroring_counterexample:
  "constructor containerless_page = Inr containerless_state
   \<and> DynamicNavContainer \<notin> page_present containerless_page
   \<and> navRows containerless_state = [NavRow 1, NavRow 2]
   \<and> \<not> isNavExpanded (fold perform [Toggle, ScrollTo 70, Toggle] containerless_state)
   \<and> timers (fold perform [Toggle, ScrollTo 70, Toggle] containerless_state) = []
   \<and> run_timers (fold perform [Toggle, ScrollTo 70, Toggle] containerless_state)
       = fold perform [Toggle, ScrollTo 70, Toggle] containerless_state
   \<and> style_transform (elems (fold perform [Toggle, ScrollTo 70, Toggle] containerless_state)
        (NavRow 1)) = TranslateY_px (- 40)
   \<and> style_transform (elems (fold perform [Toggle, ScrollTo 70, Toggle] containerless_state)
        (NavRow 2)) = TranslateY_px (- 20)
   \<and> translation_px (style_transform
        (elems (fold perform [Toggle, ScrollTo 70, Toggle] containerless_state) (NavRow 1)))
       \<noteq> Some 0
   \<and> translation_px (style_transform
        (elems (fold perform [Toggle, ScrollTo 70, Toggle] containerless_state) (NavRow 2)))
       \<noteq> Some 0"
proof -
  let ?e = "toggleNavExpansion containerless_state"
  let ?s = "on_scroll 70 ?e"
  note f = containerless_fields
  have c0: "\<not> isNavExpanded containerless_state"
    by (simp add: constructor_collapsed [OF containerless_constructed])
  have e: "isNavExpanded ?e" "dynamicNavContainer ?e = None" "timers ?e = []"
      "navRows ?e = [NavRow 1, NavRow 2]"
      "offsetHeight (elems ?e (NavRow 1)) = 40" "offsetHeight (elems ?e (NavRow 2)) = 60"
    using c0
    by (simp_all add: toggleNavExpansion_def expandNavRows_def updateToggleButton_fields
          updateToggleButton_geometry f box_def blank_def)
  have r1: "style_transform (elems (updateHeaders 70 ?e) (NavRow 1)) = TranslateY_px (- 40)"
    using updateHeaders_row [of ?e 70 0] e
    by (simp add: header_transform_def Let_def)
  have r2: "style_transform (elems (updateHeaders 70 ?e) (NavRow 2)) = TranslateY_px (- 20)"
    using updateHeaders_row [of ?e 70 1] e
    by (simp add: header_transform_def Let_def)
  have s: "isNavExpanded ?s" "dynamicNavContainer ?s = None" "timers ?s = []"
    using e(1,2,3) by (simp_all add: on_scroll_def)
  have fin: "fold perform [Toggle, ScrollTo 70, Toggle] containerless_state
               = updateToggleButton (?s\<lparr>isNavExpanded := False\<rparr>)"
    using s by (simp add: toggleNavExpansion_def [of ?s] collapseNavRowsWithContentMovement_def)
  have a: "\<not> isNavExpanded (fold perform [Toggle, ScrollTo 70, Toggle] containerless_state)"
    by (simp add: toggles_among_activities c0 del: fold_simps)
  have b: "timers (fold perform [Toggle, ScrollTo 70, Toggle] containerless_state) = []"
    unfolding fin using s by simp
  have c: "run_timers (fold perform [Toggle, ScrollTo 70, Toggle] containerless_state)
             = fold perform [Toggle, ScrollTo 70, Toggle] containerless_state"
    using b by (simp add: run_timers.simps del: fold_simps)
  have t1: "style_transform (elems (fold perform [Toggle, ScrollTo 70, Toggle] containerless_state)
              (NavRow 1)) = TranslateY_px (- 40)"
    unfolding fin using r1 by (simp add: on_scroll_def)
  have t2: "style_transform (elems (fold perform [Toggle, ScrollTo 70, Toggle] containerless_state)
              (NavRow 2)) = TranslateY_px (- 20)"
    unfolding fin using r2 by (simp add: on_scroll_def)
  have d: "DynamicNavContainer \<notin> page_present containerless_page"
    by (simp add: containerless_page_def)
  from containerless_constructed d f(1) a b c t1 t2 show ?thesis
    by (simp del: fold_simps)
qed

text \<open>
  C6, on a page that has the container. While the navigation is collapsed
  \<^verbatim>\<open>updateHeaders\<close> changes nothing, whatever the scroll position. After any sequence
  of toggles, scrolls, resizes and firing timers since construction: whenever the
  navigation is collapsed and no timer is pending, every nav row is translated by 0,
  whatever the scroll handler wrote on it while the navigation was expanded. Firing
  the pending timers always reaches a state with no timer pending.
\<close>

theorem scroll_mirroring_only_while_expanded:
  assumes "constructor pg = Inr st" and "DynamicNavContainer \<in> page_present pg"
  shows "(\<forall>s x. \<not> isNavExpanded s \<longrightarrow> updateHeaders x s = s)
       \<and> (\<forall>acts. \<not> isNavExpanded (fold perform acts st) \<and> timers (fold perform acts st) = []
             \<longrightarrow> (\<forall>r \<in> set (navRows st).
                    translation_px (style_transform (elems (fold perform acts st) r)) = Some 0))
       \<and> (\<forall>acts. timers (run_timers (fold perform acts st)) = []
             \<and> (\<not> isNavExpanded (fold perform acts st)
                  \<longrightarrow> (\<forall>r \<in> set (navRows st).
                         translation_px (style_transform
                           (elems (run_timers (fold perform acts st)) r)) = Some 0)))"
proof -
  have s0: "settling st" by (rule settling_constructed [OF assms])
  have a: "\<forall>r \<in> set (navRows st).
             translation_px (style_transform (elems (fold perform acts st) r)) = Some 0"
    if "\<not> isNavExpanded (fold perform acts st)" "timers (fold perform acts st) = []" for acts
  proof -
    from settling_idle [OF settling_activities [OF s0] that]
    show ?thesis by (simp add: rows_in_place_def)
  qed
  have b: "\<forall>r \<in> set (navRows st).
             translation_px (style_transform (elems (run_timers (fold perform acts st)) r)) = Some 0"
    if "\<not> isNavExpanded (fold perform acts st)" for acts
  proof -
    have "settling (run_timers (fold perform acts st))"
      by (rule settling_run_timers [OF settling_activities [OF s0]])
    from settling_idle [OF this] that
    show ?thesis by (simp add: rows_in_place_def)
  qed
  from updateHeaders_collapsed a b show ?thesis by (simp del: fold_simps)
qed

theorem scroll_mirroring_only_while_expanded_witness:
  "constructor demo_page = Inr demo_state
   \<and> DynamicNavContainer \<in> page_present demo_page
   \<and> \<not> isNavExpanded (fold perform
        [Toggle, ScrollTo 70, Toggle, TimerFires, ScrollTo 90, TimerFires, TimerFires,
         TimerFires, ResizeTo 500, TimerFires, TimerFires, TimerFires, ScrollTo 30] demo_state)
   \<and> timers (fold perform
        [Toggle, ScrollTo 70, Toggle, TimerFires, ScrollTo 90, TimerFires, TimerFires,
         TimerFires, ResizeTo 500, TimerFires, TimerFires, TimerFires, ScrollTo 30] demo_state) = []
   \<and> translation_px (style_transform (elems (fold perform
        [Toggle, ScrollTo 70, Toggle, TimerFires, ScrollTo 90, TimerFires, TimerFires,
         TimerFires, ResizeTo 500, TimerFires, TimerFires, TimerFires, ScrollTo 30] demo_state)
        (NavRow 1))) = Some 0
   \<and> translation_px (style_transform (elems (fold perform
        [Toggle, ScrollTo 70, Toggle, TimerFires, ScrollTo 90, TimerFires, TimerFires,
         TimerFires, ResizeTo 500, TimerFires, TimerFires, TimerFires, ScrollTo 30] demo_state)
        (NavRow 2))) = Some 0"
proof -
  let ?acts = "[Toggle, ScrollTo 70, Toggle, TimerFires, ScrollTo 90, TimerFires, TimerFires,
         TimerFires, ResizeTo 500, TimerFires, TimerFires, TimerFires, ScrollTo 30]"
  have h2: "DynamicNavContainer \<in> page_present demo_page"
    by (simp add: demo_page_def)
  have h3: "\<not> isNavExpanded (fold perform ?acts demo_state)"
    by (simp add: toggles_among_activities constructor_collapsed [OF demo_constructed]
          del: fold_simps)
  have h4: "timers (fold perform ?acts demo_state) = []"
    by (simp add: fire_next_timers fire_next_now demo_collapsing_timers demo_scrolled_fields)
  have rows: "NavRow 1 \<in> set (navRows demo_state)" "NavRow 2 \<in> set (navRows demo_state)"
    by (simp_all add: demo_fields)
  from scroll_mirroring_only_while_expanded [OF demo_constructed h2] demo_constructed h2 h3 h4 rows
  show ?thesis by blast
qed

text \<open>
  C7. A toggle that expands, with the container on the page and two nav rows (of any
  heights, 40 and 60 pixels in the scenario): the appearance of row 0 is registered
  with delay 0, that of row 1 with delay 100, and the reset of the title rows with
  delay \<open>2 * 100 + 100 = 300\<close>, all counted from the time of the toggle. The two
  appearance callbacks write \<^verbatim>\<open>translateY(0)\<close> and opacity 1 on their row, the last
  callback writes \<^verbatim>\<open>translateY(0)\<close> on every title row.
\<close>

theorem expand_schedule:
  assumes "dynamicNavContainer st = Some c" and "\<not> isNavExpanded st"
    and "navRows st = [row0, row1]"
  shows "timers (toggleNavExpansion st) =
           timers st @ [(now st + 0, NavRowAppear row0),
                        (now st + 100, NavRowAppear row1),
                        (now st + 300, TitleRowsReset)]
       \<and> (\<forall>s. elems (run_callback (NavRowAppear row0) s) row0 = reset_nav_row (elems s row0))
       \<and> (\<forall>s. elems (run_callback (NavRowAppear row1) s) row1 = reset_nav_row (elems s row1))
       \<and> (\<forall>s. \<forall>r \<in> set (titleRows s).
             style_transform (elems (run_callback TitleRowsReset s) r) = Lit ''translateY(0)'')"
proof -
  have "timers (toggleNavExpansion st) = timers (expandNavRows (st\<lparr>isNavExpanded := True\<rparr>))"
    using assms(2) by (simp add: toggleNavExpansion_def Let_def)
  also have "\<dots> = timers st @ [(now st + 0, NavRowAppear row0),
                        (now st + 100, NavRowAppear row1),
                        (now st + 300, TitleRowsReset)]"
    using assms(1,3) by (simp add: expandNavRows_timers)
  finally have sched: "timers (toggleNavExpansion st) =
           timers st @ [(now st + 0, NavRowAppear row0),
                        (now st + 100, NavRowAppear row1),
                        (now st + 300, TitleRowsReset)]" .
  have appear: "elems (run_callback (NavRowAppear r) s) r = reset_nav_row (elems s r)" for r s
    by simp
  from sched appear title_reset_elems show ?thesis
    by blast
qed

theorem expand_schedule_witness:
  "dynamicNavContainer demo_state = Some DynamicNavContainer
   \<and> \<not> isNavExpanded demo_state
   \<and> navRows demo_state = [NavRow 1, NavRow 2]
   \<and> offsetHeight (elems demo_state (NavRow 1)) = 40
   \<and> offsetHeight (elems demo_state (NavRow 2)) = 60
   \<and> timers (toggleNavExpansion demo_state) =
        [(0, NavRowAppear (NavRow 1)), (100, NavRowAppear (NavRow 2)), (300, TitleRowsReset)]"
  using expand_schedule [of demo_state DynamicNavContainer "NavRow 1" "NavRow 2"]
  by (simp add: demo_fields constructor_collapsed [OF demo_constructed] box_def blank_def)

text \<open>
  C8. In a registry whose rows are all resolved and distinct, as the constructor builds
  it, \<^verbatim>\<open>isRowFolded\<close> of the row at position \<open>k\<close> returns true exactly when
  \<open>k\<close> is not the first position and the top of the row is strictly less than the
  bottom of the row at position \<open>k - 1\<close>; for the first row it returns false.
\<close>

theorem fold_test:
  assumes "displayedRowRegistry st = map Some rs" and "distinct rs" and "k < length rs"
  shows "isRowFolded (rs ! k) st =
           Inr (0 < k \<and> rect_top (elems st (rs ! k)) < rect_bottom (elems st (rs ! (k - 1))))"
  using assms by (rule isRowFolded_nth)

theorem fold_test_witness:
  "displayedRowRegistry folded_state = map Some [NavRow 1, TitleRow1, TitleRow2]
   \<and> distinct [NavRow 1, TitleRow1, TitleRow2]
   \<and> isRowFolded (NavRow 1) folded_state = Inr False
   \<and> isRowFolded TitleRow1 folded_state = Inr True
   \<and> isRowFolded TitleRow2 folded_state = Inr False"
  using fold_test [of folded_state "[NavRow 1, TitleRow1, TitleRow2]" 0]
    fold_test [of folded_state "[NavRow 1, TitleRow1, TitleRow2]" 1]
    fold_test [of folded_state "[NavRow 1, TitleRow1, TitleRow2]" 2]
  by (simp add: folded_fields box_def blank_def)

text \<open>
  C9. When the element \<^verbatim>\<open>toggle-button\<close> is on the page, the resize listener sets
  its position to \<^verbatim>\<open>fixed\<close> and its right offset to \<^verbatim>\<open>20px\<close> if the window
  is narrower than 768 pixels, and to \<^verbatim>\<open>absolute\<close> and
  \<^verbatim>\<open>calc(30% + 20px)\<close> if it is 768 pixels wide or wider.
\<close>

theorem button_position:
  assumes "ToggleButton \<in> present st"
  shows "(w < 768 \<longrightarrow>
            style_position (elems (on_resize w st) ToggleButton) = Lit ''fixed''
          \<and> style_right (elems (on_resize w st) ToggleButton) = Lit ''20px'')
       \<and> (768 \<le> w \<longrightarrow>
            style_position (elems (on_resize w st) ToggleButton) = Lit ''absolute''
          \<and> style_right (elems (on_resize w st) ToggleButton) = Lit ''calc(30% + 20px)'')"
  using assms
  by (simp add: on_resize_def updateButtonPosition_def getElementById_def upd_elem_def Let_def)

theorem button_position_witness:
  "ToggleButton \<in> present demo_state
   \<and> style_position (elems (on_resize 767 demo_state) ToggleButton) = Lit ''fixed''
   \<and> style_right (elems (on_resize 767 demo_state) ToggleButton) = Lit ''20px''
   \<and> style_position (elems (on_resize 768 demo_state) ToggleButton) = Lit ''absolute''
   \<and> style_right (elems (on_resize 768 demo_state) ToggleButton) = Lit ''calc(30% + 20px)''"
  using button_position [of demo_state 767] button_position [of demo_state 768]
  by (simp add: demo_fields)

text \<open>
  C10. \<^verbatim>\<open>getCurrentRegion\<close> after \<^verbatim>\<open>setCurrentRegion(r)\<close> returns \<open>r\<close> for every
  integer \<open>r\<close>, inside the documented range from 0 to \<open>MAX_NAV_ROWS + 2\<close> or
  not; in the state the constructor returns the region is 1.
\<close>

theorem region_roundtrip:
  "getCurrentRegion (setCurrentRegion r st) = r
   \<and> (\<forall>pg st0. constructor pg = Inr st0 \<longrightarrow> getCurrentRegion st0 = 1)"
  by (simp add: getCurrentRegion_def setCurrentRegion_def constructor_fields)

theorem region_roundtrip_witness:
  "constructor demo_page = Inr demo_state
   \<and> getCurrentRegion demo_state = 1
   \<and> getCurrentRegion (setCurrentRegion (- 7) demo_state) = - 7
   \<and> getCurrentRegion (setCurrentRegion 100 demo_state) = 100"
  using region_roundtrip [of "- 7" demo_state] region_roundtrip [of 100 demo_state]
    demo_constructed
  by blast

end
